theory Spec2Isabelle
  imports Complex_Main "HOL-Library.Sublist" "HOL-Library.AList"
begin

section \<open>Python string primitives used by the NWChem output parser\<close>

text \<open>
  The log text is a Python \<open>str\<close>. It is modelled as a \<open>string\<close>, the list of its code
  points, each below 256, the range of \<open>char\<close>: a text with a code point beyond is outside the
  model. On that range the classes below are Python's: the whitespace of \<open>str.strip\<close>,
  \<open>str.split\<close> and \<open>\s\<close>, the digits of \<open>\d\<close>, the word characters of \<open>\w\<close> (those for
  which \<open>str.isalnum\<close> holds, and the underscore), and the letters \<open>str.lower\<close> changes.
\<close>

datatype py_error = IndexError | ValueError | TypeError | KeyError

definition isspace :: "char \<Rightarrow> bool" where
  "isspace c = (c \<in> set [CHR 0x09, CHR 0x0A, CHR 0x0B, CHR 0x0C, CHR 0x0D,
                          CHR 0x1C, CHR 0x1D, CHR 0x1E, CHR 0x1F, CHR 0x20, CHR 0x85, CHR 0xA0])"

definition isdigit :: "char \<Rightarrow> bool" where
  "isdigit c = (c \<in> set ''0123456789'')"

text \<open>The capitals, which \<open>str.lower\<close> moves 32 code points up: A to Z, and U+00C0 to U+00DE
  without the multiplication sign U+00D7.\<close>

definition isupper :: "char \<Rightarrow> bool" where
  "isupper c = (c \<in> set (''ABCDEFGHIJKLMNOPQRSTUVWXYZ'' @
      [CHR 0xC0, CHR 0xC1, CHR 0xC2, CHR 0xC3, CHR 0xC4, CHR 0xC5, CHR 0xC6, CHR 0xC7,
       CHR 0xC8, CHR 0xC9, CHR 0xCA, CHR 0xCB, CHR 0xCC, CHR 0xCD, CHR 0xCE, CHR 0xCF,
       CHR 0xD0, CHR 0xD1, CHR 0xD2, CHR 0xD3, CHR 0xD4, CHR 0xD5, CHR 0xD6, CHR 0xD8,
       CHR 0xD9, CHR 0xDA, CHR 0xDB, CHR 0xDC, CHR 0xDD, CHR 0xDE]))"

text \<open>The small letters that have a capital 32 code points down: a to z, and U+00E0 to U+00FE
  without the division sign U+00F7.\<close>

definition islower :: "char \<Rightarrow> bool" where
  "islower c = (c \<in> set (''abcdefghijklmnopqrstuvwxyz'' @
      [CHR 0xE0, CHR 0xE1, CHR 0xE2, CHR 0xE3, CHR 0xE4, CHR 0xE5, CHR 0xE6, CHR 0xE7,
       CHR 0xE8, CHR 0xE9, CHR 0xEA, CHR 0xEB, CHR 0xEC, CHR 0xED, CHR 0xEE, CHR 0xEF,
       CHR 0xF0, CHR 0xF1, CHR 0xF2, CHR 0xF3, CHR 0xF4, CHR 0xF5, CHR 0xF6, CHR 0xF8,
       CHR 0xF9, CHR 0xFA, CHR 0xFB, CHR 0xFC, CHR 0xFD, CHR 0xFE]))"

text \<open>The other characters below 256 that \<open>\w\<close> matches: the ordinal indicators, the
  superscript digits, the micro sign, the fractions, the sharp s and y with diaeresis.\<close>

definition isword :: "char \<Rightarrow> bool" where
  "isword c = (isdigit c \<or> isupper c \<or> islower c \<or> c = CHR ''_'' \<or>
      c \<in> set [CHR 0xAA, CHR 0xB2, CHR 0xB3, CHR 0xB5, CHR 0xB9, CHR 0xBA, CHR 0xBC, CHR 0xBD,
       CHR 0xBE, CHR 0xDF, CHR 0xFF])"

definition lower_chr :: "char \<Rightarrow> char" where
  "lower_chr c = (if isupper c then char_of (of_char c + (32::nat)) else c)"

definition lower :: "string \<Rightarrow> string" where
  "lower s = map lower_chr s"

text \<open>
  \<open>s.capitalize()\<close>: the first character in title case, the others in lower case. The title
  case of a character below 256 can lie beyond (y with diaeresis gives U+0178, the micro sign
  U+039C) or be two characters (the sharp s gives \<open>Ss\<close>), so the result is kept as the list of
  its code points.
\<close>

definition title_chr :: "char \<Rightarrow> nat list" where
  "title_chr c =
     (if c = CHR 0xB5 then [0x39C]
      else if c = CHR 0xDF then [0x53, 0x73]
      else if c = CHR 0xFF then [0x178]
      else if islower c then [of_char c - 32]
      else [of_char c])"

definition capitalize :: "string \<Rightarrow> nat list" where
  "capitalize s = (case s of [] \<Rightarrow> [] | c # cs \<Rightarrow> title_chr c @ map (\<lambda>d. of_char (lower_chr d)) cs)"

definition strip :: "string \<Rightarrow> string" where
  "strip s = rev (dropWhile isspace (rev (dropWhile isspace s)))"

text \<open>\<open>s.split(d)\<close> for a one-character separator: \<open>cur\<close> is the piece being read.\<close>

fun split_chr :: "char \<Rightarrow> string \<Rightarrow> string \<Rightarrow> string list" where
  "split_chr d cur [] = [cur]"
| "split_chr d cur (c # cs) =
     (if c = d then cur # split_chr d [] cs else split_chr d (cur @ [c]) cs)"

definition split_nl :: "string \<Rightarrow> string list" where
  "split_nl s = split_chr (CHR 0x0A) [] s"

text \<open>\<open>s.split()\<close>: maximal runs of non-whitespace.\<close>

fun split_ws_acc :: "string \<Rightarrow> string \<Rightarrow> string list" where
  "split_ws_acc cur [] = (if cur = [] then [] else [cur])"
| "split_ws_acc cur (c # cs) =
     (if isspace c then (if cur = [] then split_ws_acc [] cs else cur # split_ws_acc [] cs)
      else split_ws_acc (cur @ [c]) cs)"

definition split_ws :: "string \<Rightarrow> string list" where
  "split_ws s = split_ws_acc [] s"

text \<open>\<open>sub in s\<close>, that is \<open>s.find(sub) != -1\<close>.\<close>

fun contains :: "string \<Rightarrow> string \<Rightarrow> bool" where
  "contains sub [] = (sub = [])"
| "contains sub (c # cs) = (prefix sub (c # cs) \<or> contains sub cs)"

text \<open>\<open>s.replace(old, new)\<close> for a non-empty \<open>old\<close>, leftmost occurrences first.\<close>

fun replace :: "string \<Rightarrow> string \<Rightarrow> string \<Rightarrow> string" where
  "replace old new [] = []"
| "replace old new (c # cs) =
     (if old \<noteq> [] \<and> prefix old (c # cs)
      then new @ replace old new (drop (length old - 1) cs)
      else c # replace old new cs)"

text \<open>\<open>re.split(sep, s)\<close> for a pattern that is a non-empty literal.\<close>

fun split_str :: "string \<Rightarrow> string \<Rightarrow> string \<Rightarrow> string list" where
  "split_str sep cur [] = [cur]"
| "split_str sep cur (c # cs) =
     (if sep \<noteq> [] \<and> prefix sep (c # cs)
      then cur # split_str sep [] (drop (length sep - 1) cs)
      else split_str sep (cur @ [c]) cs)"

text \<open>Python indexing from the end: \<open>xs[-k]\<close> for \<open>k > 0\<close>.\<close>

definition from_end :: "'a list \<Rightarrow> nat \<Rightarrow> py_error + 'a" where
  "from_end xs k = (if 0 < k \<and> k \<le> length xs then Inr (xs ! (length xs - k)) else Inl IndexError)"

section \<open>Number parsing: \<open>int(s)\<close> and \<open>float(s)\<close>\<close>

text \<open>
  A Python float is a binary64 number. A finite one is named here by the rational its decimal
  literal denotes, \<open>Fin q\<close> standing for the float \<open>float\<close> makes of a literal of value \<open>q\<close>
  (the nearest binary64 number; the sign of a zero is not kept); a literal whose value
  rounds beyond the largest finite float gives an infinity, as in Python. The parser never
  computes with a float: it copies it, and hands it to the code outside this file (the
  arithmetic of the spectrum is a parameter). \<open>py_eq\<close> is Python's \<open>==\<close> between a
  float and a copy of it: \<open>nan\<close> is not equal to itself.
\<close>

datatype pyfloat = Fin rat | PInf | NInf | NaN


text \<open>\<open>2 ^ 1024 - 2 ^ 970\<close>: from this value on a literal rounds to infinity.\<close>

definition float_overflow :: rat where
  "float_overflow = 179769313486231580793728971405303415079934132710037826936173778980444968292764750946649017977587207096330286416692887910946555547851940402630657488671505820681908902000708383676273854845817711531764475730270069855571366959622842914819860834936475292719074168444365510704342711559699508093042880177904174497792"

definition digit_val :: "char \<Rightarrow> int" where
  "digit_val c = of_char c - 48"

definition digits_val :: "string \<Rightarrow> int" where
  "digits_val s = foldl (\<lambda>a c. 10 * a + digit_val c) 0 s"

text \<open>A digit part: digits, single underscores allowed between two digits.\<close>

fun digitpart_from :: "bool \<Rightarrow> string \<Rightarrow> bool" where
  "digitpart_from after_digit [] = after_digit"
| "digitpart_from after_digit (c # cs) =
     (if isdigit c then digitpart_from True cs
      else if c = CHR ''_'' \<and> after_digit then (cs \<noteq> [] \<and> isdigit (hd cs) \<and> digitpart_from False cs)
      else False)"

definition digitpart :: "string \<Rightarrow> bool" where
  "digitpart s = digitpart_from False s"

definition no_us :: "string \<Rightarrow> string" where
  "no_us s = filter (\<lambda>c. c \<noteq> CHR ''_'') s"

definition split_sign :: "string \<Rightarrow> bool \<times> string" where
  "split_sign s = (case s of [] \<Rightarrow> (False, [])
      | c # cs \<Rightarrow> if c = CHR ''-'' then (True, cs) else if c = CHR ''+'' then (False, cs) else (False, c # cs))"

text \<open>
  \<open>int(s)\<close>: \<open>None\<close> where it raises ValueError, also for a literal of more than 4300 digits
  (the limit \<open>sys.int_info.default_max_str_digits\<close>).
\<close>

definition py_int :: "string \<Rightarrow> int option" where
  "py_int s = (let (neg, body) = split_sign (strip s) in
      if digitpart body \<and> int (length (no_us body)) \<le> 4300
      then Some ((if neg then -1 else 1) * digits_val (no_us body)) else None)"

definition scale10 :: "int \<Rightarrow> int \<Rightarrow> rat" where
  "scale10 m e = (if 0 \<le> e then of_int m * 10 ^ nat e else of_int m / 10 ^ nat (- e))"

text \<open>The exponent suffix of a float literal: empty, or \<open>e\<close>/\<open>E\<close>, a sign, a digit part.\<close>

definition parse_exp :: "string \<Rightarrow> int option" where
  "parse_exp s = (case s of [] \<Rightarrow> Some 0
      | c # cs \<Rightarrow> if c = CHR ''e'' \<or> c = CHR ''E'' then
            (let (neg, body) = split_sign cs in
             if digitpart body then Some ((if neg then -1 else 1) * digits_val (no_us body)) else None)
          else None)"

definition is_mant_chr :: "char \<Rightarrow> bool" where
  "is_mant_chr c = (isdigit c \<or> c = CHR ''_'')"

text \<open>
  The unsigned decimal literal: \<open>digits [. [digits]] [exp]\<close> or \<open>. digits [exp]\<close>.
\<close>

definition parse_decimal :: "string \<Rightarrow> rat option" where
  "parse_decimal s =
     (let ip = takeWhile is_mant_chr s; r1 = dropWhile is_mant_chr s;
          has_dot = (r1 \<noteq> [] \<and> hd r1 = CHR ''.'');
          r2 = (if has_dot then tl r1 else r1);
          fp = (if has_dot then takeWhile is_mant_chr r2 else []);
          r3 = (if has_dot then dropWhile is_mant_chr r2 else r2)
      in if (ip = [] \<and> fp = []) \<or> (ip \<noteq> [] \<and> \<not> digitpart ip) \<or> (fp \<noteq> [] \<and> \<not> digitpart fp)
         then None
         else (case parse_exp r3 of None \<Rightarrow> None
               | Some e \<Rightarrow> Some (scale10 (digits_val (no_us ip @ no_us fp))
                                         (e - int (length (no_us fp))))))"

definition py_float :: "string \<Rightarrow> pyfloat option" where
  "py_float s = (let (neg, body) = split_sign (strip s); lb = lower body in
      if lb = ''inf'' \<or> lb = ''infinity'' then Some (if neg then NInf else PInf)
      else if lb = ''nan'' then Some NaN
      else (case parse_decimal body of None \<Rightarrow> None
            | Some q \<Rightarrow>
                if float_overflow \<le> q then Some (if neg then NInf else PInf)
                else Some (Fin (if neg then - q else q))))"

text \<open>\<open>float(s)\<close> as a step of the program: a string that is no literal raises ValueError.\<close>

definition float_of :: "string \<Rightarrow> py_error + pyfloat" where
  "float_of s = (case py_float s of None \<Rightarrow> Inl ValueError | Some x \<Rightarrow> Inr x)"

fun floats_of :: "string list \<Rightarrow> py_error + pyfloat list" where
  "floats_of [] = Inr []"
| "floats_of (t # ts) =
     (case float_of t of Inl e \<Rightarrow> Inl e
      | Inr x \<Rightarrow> (case floats_of ts of Inl e \<Rightarrow> Inl e | Inr xs \<Rightarrow> Inr (x # xs)))"

section \<open>The regular expressions of the parser\<close>

text \<open>
  The patterns of \<open>_parse_job\<close> use literals, character classes, \<open>+\<close> and \<open>*\<close> on a
  class, capturing groups and one alternation. A pattern is the list of its items from left
  to right. Matching is Python's: a repetition is greedy and gives characters back one at a
  time when the rest fails; \<open>search\<close> takes the leftmost start that matches.
\<close>

datatype atom = Dot | Digit | Word | Space | NotSpace | Chr char

fun in_atom :: "atom \<Rightarrow> char \<Rightarrow> bool" where
  "in_atom Dot c = (c \<noteq> CHR 0x0A)"
| "in_atom Digit c = isdigit c"
| "in_atom Word c = isword c"
| "in_atom Space c = isspace c"
| "in_atom NotSpace c = (\<not> isspace c)"
| "in_atom (Chr d) c = (c = d)"

definition in_cls :: "atom list \<Rightarrow> char \<Rightarrow> bool" where
  "in_cls as c = list_ex (\<lambda>a. in_atom a c) as"

datatype item = Lit string | One "atom list" | Plus "atom list" | Star "atom list" | Open | Close

text \<open>
  \<open>rx_match p seen opens caps s\<close>: match the items \<open>p\<close> at the head of \<open>s\<close>; \<open>seen\<close> is the
  text matched so far, \<open>opens\<close> the start offsets of the groups still open, \<open>caps\<close> the groups
  closed so far. \<open>rx_rep k lo p ...\<close> tries \<open>k, k-1, ..., lo\<close> characters for a repetition.
\<close>

function rx_match :: "item list \<Rightarrow> string \<Rightarrow> nat list \<Rightarrow> string list \<Rightarrow> string \<Rightarrow> string list option"
  and rx_rep :: "nat \<Rightarrow> nat \<Rightarrow> item list \<Rightarrow> string \<Rightarrow> nat list \<Rightarrow> string list \<Rightarrow> string \<Rightarrow> string list option"
where
  "rx_match [] seen opens caps s = Some caps"
| "rx_match (Lit t # p) seen opens caps s =
     (if prefix t s then rx_match p (seen @ t) opens caps (drop (length t) s) else None)"
| "rx_match (One c # p) seen opens caps s =
     (case s of [] \<Rightarrow> None
      | x # xs \<Rightarrow> if in_cls c x then rx_match p (seen @ [x]) opens caps xs else None)"
| "rx_match (Plus c # p) seen opens caps s =
     rx_rep (length (takeWhile (in_cls c) s)) 1 p seen opens caps s"
| "rx_match (Star c # p) seen opens caps s =
     rx_rep (length (takeWhile (in_cls c) s)) 0 p seen opens caps s"
| "rx_match (Open # p) seen opens caps s = rx_match p seen (length seen # opens) caps s"
| "rx_match (Close # p) seen opens caps s =
     (case opens of [] \<Rightarrow> None
      | k # ks \<Rightarrow> rx_match p seen ks (caps @ [drop k seen]) s)"
| "rx_rep k lo p seen opens caps s =
     (if k < lo then None
      else (case rx_match p (seen @ take k s) opens caps (drop k s) of
              Some g \<Rightarrow> Some g
            | None \<Rightarrow> if k = 0 then None else rx_rep (k - 1) lo p seen opens caps s))"
  by pat_completeness auto
termination
  by (relation "measures [\<lambda>x. case x of Inl (p, _) \<Rightarrow> 2 * length p | Inr (_, _, p, _) \<Rightarrow> 2 * length p + 1,
                          \<lambda>x. case x of Inl _ \<Rightarrow> 0 | Inr (k, _) \<Rightarrow> k]") auto

text \<open>\<open>re.match\<close>: at the start of the string; \<open>re.search\<close>: at the leftmost start.\<close>

definition re_match :: "item list \<Rightarrow> string \<Rightarrow> string list option" where
  "re_match p s = rx_match p [] [] [] s"

fun re_search :: "item list \<Rightarrow> string \<Rightarrow> string list option" where
  "re_search p [] = re_match p []"
| "re_search p (c # cs) =
     (case re_match p (c # cs) of Some g \<Rightarrow> Some g | None \<Rightarrow> re_search p cs)"

text \<open>
  A pattern \<open>(A|B|...)R\<close> is the list of \<open>(A)R\<close>, \<open>(B)R\<close>, ...: at each start the
  alternatives are tried in order, each with the rest of the pattern.
\<close>

fun re_match_alts :: "item list list \<Rightarrow> string \<Rightarrow> string list option" where
  "re_match_alts [] s = None"
| "re_match_alts (p # ps) s =
     (case re_match p s of Some g \<Rightarrow> Some g | None \<Rightarrow> re_match_alts ps s)"

fun re_search_alts :: "item list list \<Rightarrow> string \<Rightarrow> string list option" where
  "re_search_alts ps [] = re_match_alts ps []"
| "re_search_alts ps (c # cs) =
     (case re_match_alts ps (c # cs) of Some g \<Rightarrow> Some g | None \<Rightarrow> re_search_alts ps cs)"

abbreviation num_cls :: "atom list" where
  "num_cls \<equiv> [Chr (CHR ''.''), Chr (CHR ''-''), Digit]"

definition energy_patt :: "item list" where
  "energy_patt = [Lit ''Total '', Plus [Word], Lit '' energy'', Plus [Space], Lit ''='', Plus [Space],
                  Open, Plus num_cls, Close]"

definition energy_gas_patt :: "item list" where
  "energy_gas_patt = [Lit ''gas phase energy'', Plus [Space], Lit ''='', Plus [Space],
                      Open, Plus num_cls, Close]"

definition energy_sol_patt :: "item list" where
  "energy_sol_patt = [Lit ''sol phase energy'', Plus [Space], Lit ''='', Plus [Space],
                      Open, Plus num_cls, Close]"

definition coord_patt :: "item list" where
  "coord_patt = [Plus [Digit], Plus [Space], Open, Plus [Word], Close, Plus [Space], Plus num_cls,
                 Plus [Space], Open, Plus num_cls, Close,
                 Plus [Space], Open, Plus num_cls, Close,
                 Plus [Space], Open, Plus num_cls, Close]"

definition lat_vector_patt :: "item list" where
  "lat_vector_patt = [Lit ''a'', One [Chr (CHR ''1''), Chr (CHR ''2''), Chr (CHR ''3'')], Lit ''=<'',
                      Plus [Space], Open, Plus num_cls, Close,
                      Plus [Space], Open, Plus num_cls, Close,
                      Plus [Space], Open, Plus num_cls, Close,
                      Plus [Space], Lit ''>'']"

definition corrections_patt :: "item list" where
  "corrections_patt = [Open, Plus [Word, Chr (CHR ''-'')], Lit '' correction to '', Plus [Word], Close,
                       Plus [Space], Lit ''='', Plus [Space], Open, Plus num_cls, Close]"

definition preamble_patt :: "item list list" where
  "preamble_patt = map (\<lambda>alt. [Open] @ alt @ [Close, Star [Space], Lit '':'', Star [Space],
                                 Open, Plus [NotSpace], Close])
     [[Lit ''No'', One [Dot], Lit '' of atoms''],
      [Lit ''No'', One [Dot], Lit '' of electrons''],
      [Lit ''SCF calculation type''],
      [Lit ''Charge''],
      [Lit ''Spin multiplicity'']]"

definition force_patt :: "item list" where
  "force_patt = [Plus [Space], Open, Plus [Digit], Close, Plus [Space], Open, Plus [Word], Close]
                 @ concat (replicate 6 [Plus [Space], Open, Plus num_cls, Close])"

text \<open>\<open>time_patt\<close> is compiled with \<open>re.VERBOSE\<close>: the blanks of its source are no items.\<close>

definition time_patt :: "item list" where
  "time_patt = [Plus [Space], Lit ''Task'', Plus [Space], Lit ''times'', Plus [Space], Lit ''cpu:'',
                Plus [Space], Open, Plus [Chr (CHR ''.''), Digit], Close, Lit ''s'', Plus [Dot]]"

definition dashes_patt :: "item list" where
  "dashes_patt = [Plus [Chr (CHR ''-'')]]"

section \<open>NwOutput.parse_tddft\<close>

text \<open>
  A root is the dict \<open>{"energy": e}\<close>, to which a later line may add \<open>"osc_strength"\<close>.
  \<open>roots\<close> is the dict from \<open>"singlet"\<close> and \<open>"triplet"\<close> to the lists of roots, \<open>state\<close>
  the key in use, \<open>inside\<close> the flag of the output block.
\<close>

record root =
  energy :: pyfloat
  osc_strength :: "pyfloat option"

record tddft =
  inside :: bool
  state :: string
  roots :: "(string \<times> root list) list"

definition start_tag :: string where "start_tag = ''Convergence criterion met''"
definition end_tag :: string where "end_tag = ''Excited state energy''"
definition singlet_tag :: string where "singlet_tag = ''singlet excited''"
definition triplet_tag :: string where "triplet_tag = ''triplet excited''"

definition roots_of :: "tddft \<Rightarrow> py_error + root list" where
  "roots_of t = (case map_of (roots t) (state t) of None \<Rightarrow> Inl KeyError | Some rs \<Rightarrow> Inr rs)"

text \<open>One pass of the \<open>while lines\<close> loop, on the line popped from the front.\<close>

definition tddft_line :: "tddft \<Rightarrow> string \<Rightarrow> py_error + tddft" where
  "tddft_line t raw_line =
     (let line = strip raw_line in
      if contains start_tag line then Inr (t\<lparr>inside := True\<rparr>)
      else if contains end_tag line then Inr (t\<lparr>inside := False\<rparr>)
      else if contains singlet_tag line then Inr (t\<lparr>state := ''singlet''\<rparr>)
      else if contains triplet_tag line then Inr (t\<lparr>state := ''triplet''\<rparr>)
      else if inside t \<and> contains ''Root'' line \<and> contains ''eV'' line then
        (case roots_of t of Inl e \<Rightarrow> Inl e
         | Inr rs \<Rightarrow>
        (case from_end (split_ws line) 2 of Inl e \<Rightarrow> Inl e
         | Inr tok \<Rightarrow>
        (case float_of tok of Inl e \<Rightarrow> Inl e
         | Inr en \<Rightarrow>
            Inr (t\<lparr>roots := AList.update (state t)
                                (rs @ [\<lparr>energy = en, osc_strength = None\<rparr>]) (roots t)\<rparr>))))
      else if inside t \<and> contains ''Dipole Oscillator Strength'' line then
        (case from_end (split_ws line) 1 of Inl e \<Rightarrow> Inl e
         | Inr tok \<Rightarrow>
        (case float_of tok of Inl e \<Rightarrow> Inl e
         | Inr osc \<Rightarrow>
        (case roots_of t of Inl e \<Rightarrow> Inl e
         | Inr rs \<Rightarrow>
            if rs = [] then Inl IndexError
            else Inr (t\<lparr>roots := AList.update (state t)
                                (butlast rs @ [(last rs)\<lparr>osc_strength := Some osc\<rparr>]) (roots t)\<rparr>))))
      else Inr t)"

fun tddft_lines :: "tddft \<Rightarrow> string list \<Rightarrow> py_error + tddft" where
  "tddft_lines t [] = Inr t"
| "tddft_lines t (l # ls) =
     (case tddft_line t l of Inl e \<Rightarrow> Inl e | Inr t' \<Rightarrow> tddft_lines t' ls)"

definition parse_tddft :: "string \<Rightarrow> py_error + (string \<times> root list) list" where
  "parse_tddft raw =
     (case tddft_lines \<lparr>inside = False, state = ''singlet'',
                        roots = [(''singlet'', []), (''triplet'', [])]\<rparr> (split_nl raw) of
        Inl e \<Rightarrow> Inl e
      | Inr t \<Rightarrow> Inr (roots t))"

section \<open>NwOutput.get_excitation_spectrum\<close>

text \<open>
  The arithmetic of the spectrum is binary64 arithmetic, done by Python and numpy outside
  this file. The model takes its operations as the parameter \<open>ops\<close>, and no property below
  rests on what they compute. None of them raises: numpy answers a division by zero with
  \<open>inf\<close> or \<open>nan\<close> and a warning. \<open>of_py_int\<close> is the float an int operand is converted to,
  \<open>fgt\<close> is greater-than and \<open>fle\<close> is less-or-equal, \<open>np_sum\<close> is \<open>np.sum\<close> of the selected
  terms. \<open>ExcitationSpectrum(x, y)\<close> is outside this file and kept as the pair of its
  arguments.
\<close>

record float_ops =
  fadd :: "pyfloat \<Rightarrow> pyfloat \<Rightarrow> pyfloat"
  fsub :: "pyfloat \<Rightarrow> pyfloat \<Rightarrow> pyfloat"
  fmul :: "pyfloat \<Rightarrow> pyfloat \<Rightarrow> pyfloat"
  fdiv :: "pyfloat \<Rightarrow> pyfloat \<Rightarrow> pyfloat"
  fabs :: "pyfloat \<Rightarrow> pyfloat"
  fgt :: "pyfloat \<Rightarrow> pyfloat \<Rightarrow> bool"
  fle :: "pyfloat \<Rightarrow> pyfloat \<Rightarrow> bool"
  of_py_int :: "int \<Rightarrow> pyfloat"
  np_pi :: pyfloat
  np_sum :: "pyfloat list \<Rightarrow> pyfloat"

datatype excitation_spectrum =
  ExcitationSpectrum (spectrum_x: "pyfloat list") (spectrum_y: "pyfloat list")

text \<open>\<open>max(a, b)\<close> of two values: \<open>b\<close> if \<open>b > a\<close>, else \<open>a\<close>.\<close>

definition py_max :: "float_ops \<Rightarrow> pyfloat \<Rightarrow> pyfloat \<Rightarrow> pyfloat" where
  "py_max ops a b = (if fgt ops b a then b else a)"

text \<open>\<open>[d["osc_strength"] for d in data]\<close>: a root without the key raises KeyError.\<close>

fun osc_strengths :: "root list \<Rightarrow> py_error + pyfloat list" where
  "osc_strengths [] = Inr []"
| "osc_strengths (d # ds) =
     (case osc_strength d of None \<Rightarrow> Inl KeyError
      | Some v \<Rightarrow> (case osc_strengths ds of Inl e \<Rightarrow> Inl e | Inr vs \<Rightarrow> Inr (v # vs)))"

text \<open>The locals of the function, from the array \<open>en\<close> of root energies.\<close>

definition spec_epad :: "float_ops \<Rightarrow> pyfloat \<Rightarrow> pyfloat" where
  "spec_epad ops width = fmul ops (Fin 20) width"

definition spec_emin :: "float_ops \<Rightarrow> pyfloat list \<Rightarrow> pyfloat \<Rightarrow> pyfloat" where
  "spec_emin ops en width = fsub ops (hd en) (spec_epad ops width)"

definition spec_emax :: "float_ops \<Rightarrow> pyfloat list \<Rightarrow> pyfloat \<Rightarrow> pyfloat" where
  "spec_emax ops en width = fadd ops (last en) (spec_epad ops width)"

definition spec_de :: "float_ops \<Rightarrow> pyfloat list \<Rightarrow> pyfloat \<Rightarrow> int \<Rightarrow> pyfloat" where
  "spec_de ops en width npoints =
     fdiv ops (fsub ops (spec_emax ops en width) (spec_emin ops en width)) (of_py_int ops npoints)"

definition spec_width :: "float_ops \<Rightarrow> pyfloat list \<Rightarrow> pyfloat \<Rightarrow> int \<Rightarrow> pyfloat" where
  "spec_width ops en width npoints =
     py_max ops width (fmul ops (of_py_int ops 2) (spec_de ops en width npoints))"

definition spec_energies :: "float_ops \<Rightarrow> pyfloat list \<Rightarrow> pyfloat \<Rightarrow> int \<Rightarrow> pyfloat list" where
  "spec_energies ops en width npoints =
     map (\<lambda>ie. fadd ops (spec_emin ops en width)
                  (fmul ops (of_py_int ops (int ie)) (spec_de ops en width npoints)))
         [0 ..< nat npoints]"

text \<open>The sum \<open>np.sum(stot[np.abs(xx0) <= cutoff])\<close> at one grid energy.\<close>

definition spec_sum ::
  "float_ops \<Rightarrow> pyfloat list \<Rightarrow> pyfloat list \<Rightarrow> pyfloat \<Rightarrow> pyfloat \<Rightarrow> pyfloat \<Rightarrow> pyfloat" where
  "spec_sum ops en osc gamma_sqrd cutoff e =
     np_sum ops
       (map (\<lambda>(e0, f). fdiv ops f (fadd ops (fmul ops (fsub ops e e0) (fsub ops e e0)) gamma_sqrd))
            (filter (\<lambda>(e0, f). fle ops (fabs ops (fsub ops e e0)) cutoff) (zip en osc)))"

text \<open>
  From \<open>epad = 20.0 * width\<close> on. \<open>en[0]\<close> raises IndexError for no root, \<open>energies[-1]\<close>
  for no grid point.
\<close>

definition spec_curve ::
  "float_ops \<Rightarrow> pyfloat list \<Rightarrow> pyfloat list \<Rightarrow> pyfloat \<Rightarrow> int \<Rightarrow> py_error + excitation_spectrum" where
  "spec_curve ops en osc width0 npoints =
     (if en = [] then Inl IndexError
      else if npoints \<le> 0 then Inl IndexError
      else
        (let width = spec_width ops en width0 npoints;
             energies = spec_energies ops en width0 npoints;
             cutoff = fmul ops (Fin 20) width;
             gamma = fmul ops (Fin (1 / 2)) width;
             gamma_sqrd = fmul ops gamma gamma;
             de = fdiv ops (fsub ops (last energies) (hd energies))
                           (of_py_int ops (int (length energies) - 1));
             prefac = fmul ops (fdiv ops gamma (np_pi ops)) de
         in Inr (ExcitationSpectrum energies
                   (map (\<lambda>e. fmul ops (spec_sum ops en osc gamma_sqrd cutoff e) prefac) energies))))"

text \<open>The function from the list \<open>data\<close> of singlet roots on.\<close>

definition spectrum_of_roots ::
  "float_ops \<Rightarrow> root list \<Rightarrow> pyfloat \<Rightarrow> int \<Rightarrow> py_error + excitation_spectrum" where
  "spectrum_of_roots ops data width npoints =
     (case osc_strengths data of Inl e \<Rightarrow> Inl e
      | Inr osc \<Rightarrow> spec_curve ops (map energy data) osc width npoints)"

definition get_excitation_spectrum ::
  "float_ops \<Rightarrow> string \<Rightarrow> pyfloat \<Rightarrow> int \<Rightarrow> py_error + excitation_spectrum" where
  "get_excitation_spectrum ops raw width npoints =
     (case parse_tddft raw of Inl e \<Rightarrow> Inl e
      | Inr rts \<Rightarrow>
     (case map_of rts ''singlet'' of None \<Rightarrow> Inl KeyError
      | Some data \<Rightarrow> spectrum_of_roots ops data width npoints))"

section \<open>NwOutput._parse_job: the data\<close>

text \<open>
  \<open>Energy\<close> and \<open>FloatWithUnit\<close> (pymatgen.core.units), \<open>Molecule\<close> and \<open>Structure\<close>
  (pymatgen.core.structure) are outside this file. A converted quantity is kept as the parsed
  number with its unit and the unit asked for. \<open>Molecule species coords\<close> and
  \<open>Structure lattice species coords\<close> stand for the calls \<open>Molecule(species, coords)\<close> and
  \<open>Structure(lattice, species, coords, coords_are_cartesian=True)\<close>, not for their results:
  whether such a call returns (it raises for a species or a lattice it refuses) is decided
  outside this file. A state that holds one stands for the code's state if the call returned;
  no property below asserts that a chunk which closes a geometry block decodes.
\<close>

datatype float_with_unit = Converted pyfloat string string

definition Energy_Ha_to_eV :: "string \<Rightarrow> py_error + float_with_unit" where
  "Energy_Ha_to_eV s = (case float_of s of Inl e \<Rightarrow> Inl e | Inr v \<Rightarrow> Inr (Converted v ''Ha'' ''eV''))"

definition kJ_mol_to_eV_atom :: "string \<Rightarrow> py_error + float_with_unit" where
  "kJ_mol_to_eV_atom s =
     (case float_of s of Inl e \<Rightarrow> Inl e | Inr v \<Rightarrow> Inr (Converted v ''kJ mol^-1'' ''eV atom^-1''))"

datatype molecule = Molecule "nat list list" "pyfloat list list"

datatype periodic_structure = Structure "pyfloat list list" "nat list list" "pyfloat list list"

text \<open>An entry of \<open>energies\<close>: the energy, or the dict a gas phase line makes of it.\<close>

datatype energy_entry = Scalar float_with_unit | Solvated "(string \<times> energy_entry) list"

text \<open>A value that is an int or a str: the entries of \<open>data\<close>, and \<open>time\<close>.\<close>

datatype pyval = IntV int | StrV string

type_synonym mode = "pyfloat \<times> pyfloat list"

record job_state =
  parse_hess :: bool
  parse_proj_hess :: bool
  hessian :: "pyfloat list list option"
  projected_hessian :: "pyfloat list list option"
  parse_force :: bool
  all_forces :: "pyfloat list list"
  forces :: "pyfloat list"
  data :: "(string \<times> pyval) list"
  energies :: "energy_entry list"
  frequencies :: "mode list option"
  normal_frequencies :: "mode list option"
  corrections :: "(string \<times> float_with_unit) list"
  molecules :: "molecule list"
  structures :: "periodic_structure list"
  species :: "nat list list"
  coords :: "pyfloat list list"
  lattice :: "pyfloat list list"
  errors :: "string list"
  basis_set :: "(string \<times> (string \<times> string) list) list"
  bset_header :: "string list"
  parse_geom :: bool
  parse_freq :: bool
  parse_bset :: bool
  parse_projected_freq :: bool
  job_type :: string
  parse_time :: bool
  time :: pyval

definition init_state :: job_state where
  "init_state = \<lparr>parse_hess = False, parse_proj_hess = False, hessian = None,
     projected_hessian = None, parse_force = False, all_forces = [], forces = [], data = [],
     energies = [], frequencies = None, normal_frequencies = None, corrections = [],
     molecules = [], structures = [], species = [], coords = [], lattice = [], errors = [],
     basis_set = [], bset_header = [], parse_geom = False, parse_freq = False,
     parse_bset = False, parse_projected_freq = False, job_type = [], parse_time = False,
     time = IntV 0\<rparr>"

definition error_defs :: "(string \<times> string) list" where
  "error_defs = [(''calculations not reaching convergence'', ''Bad convergence''),
                 (''Calculation failed to converge'', ''Bad convergence''),
                 (''geom_binvr: #indep variables incorrect'', ''autoz error''),
                 (''dft optimize failed'', ''Geometry optimization failed'')]"

definition fort2py :: "string \<Rightarrow> string" where
  "fort2py x = replace ''D'' ''e'' x"

definition isfloatstring :: "string \<Rightarrow> bool" where
  "isfloatstring in_str = (\<not> contains ''.'' in_str)"

text \<open>Group \<open>n\<close> of a match, \<open>match[n]\<close>, for \<open>n\<close> from 1 to the number of groups.\<close>

definition grp :: "string list \<Rightarrow> nat \<Rightarrow> string" where
  "grp g n = g ! (n - 1)"

text \<open>\<open>xs[i]\<close> for a Python index: the position it reads, if there is one.\<close>

definition py_index :: "nat \<Rightarrow> int \<Rightarrow> nat option" where
  "py_index n i = (if 0 \<le> i \<and> i < int n then Some (nat i)
                   else if i < 0 \<and> - int n \<le> i then Some (nat (int n + i)) else None)"

text \<open>\<open>dict(zip(keys, vals))\<close>: pairs up to the shorter list, a later key replaces an earlier.\<close>

definition dict_zip :: "string list \<Rightarrow> string list \<Rightarrow> (string \<times> string) list" where
  "dict_zip keys vals = foldl (\<lambda>d (k, v). AList.update k v d) [] (zip keys vals)"

section \<open>NwOutput._parse_job: one line of the scan\<close>

text \<open>The loop over \<open>error_defs\<close> and the \<open>parse_time\<close> test run on every line.\<close>

definition add_errors :: "job_state \<Rightarrow> string \<Rightarrow> job_state" where
  "add_errors st line =
     st\<lparr>errors := errors st @ map snd (filter (\<lambda>(e, v). contains e line) error_defs)\<rparr>"

definition time_step :: "job_state \<Rightarrow> string \<Rightarrow> job_state" where
  "time_step st line =
     (if parse_time st then
        (case re_search time_patt line of
           Some g \<Rightarrow> st\<lparr>time := StrV (grp g 1), parse_time := False\<rparr>
         | None \<Rightarrow> st)
      else st)"

definition coord_line :: "job_state \<Rightarrow> string \<Rightarrow> py_error + job_state" where
  "coord_line st line =
     (case re_search coord_patt line of None \<Rightarrow> Inr st
      | Some g \<Rightarrow>
         (case floats_of [grp g 2, grp g 3, grp g 4] of Inl e \<Rightarrow> Inl e
          | Inr c \<Rightarrow> Inr (st\<lparr>species := species st @ [capitalize (grp g 1)],
                              coords := coords st @ [c]\<rparr>)))"

definition lat_vector_line :: "job_state \<Rightarrow> string \<Rightarrow> py_error + job_state" where
  "lat_vector_line st line =
     (case re_search lat_vector_patt line of None \<Rightarrow> Inr st
      | Some g \<Rightarrow>
         (case floats_of [grp g 1, grp g 2, grp g 3] of Inl e \<Rightarrow> Inl e
          | Inr v \<Rightarrow> Inr (st\<lparr>lattice := lattice st @ [v]\<rparr>)))"

definition geom_step :: "job_state \<Rightarrow> string \<Rightarrow> py_error + job_state" where
  "geom_step st line =
     (if strip line = ''Atomic Mass'' then
        Inr ((if lattice st \<noteq> []
              then st\<lparr>structures := structures st @ [Structure (lattice st) (species st) (coords st)]\<rparr>
              else st\<lparr>molecules := molecules st @ [Molecule (species st) (coords st)]\<rparr>)
             \<lparr>species := [], coords := [], lattice := [], parse_geom := False\<rparr>)
      else (case coord_line st line of Inl e \<Rightarrow> Inl e
            | Inr st1 \<Rightarrow> lat_vector_line st1 line))"

definition force_step :: "job_state \<Rightarrow> string \<Rightarrow> py_error + job_state" where
  "force_step st line =
     (case re_search force_patt line of
        Some g \<Rightarrow>
          (case floats_of (drop 5 g) of Inl e \<Rightarrow> Inl e
           | Inr fs \<Rightarrow> Inr (st\<lparr>forces := forces st @ fs\<rparr>))
      | None \<Rightarrow>
          if length (forces st) > 0
          then Inr (st\<lparr>all_forces := all_forces st @ [forces st], forces := [], parse_force := False\<rparr>)
          else Inr st)"

text \<open>
  \<open>for mode, dis in zip(modes[-n_vibs:], vibs): mode[1].append(dis)\<close>, with
  \<open>n_vibs = len(vibs)\<close>: the slice is the whole list when \<open>n_vibs\<close> is 0 or exceeds its length.
\<close>

definition add_vibs :: "mode list \<Rightarrow> pyfloat list \<Rightarrow> mode list" where
  "add_vibs modes vibs =
     (let k = length modes - length vibs
      in take k modes @ map (\<lambda>((f, d), v). (f, d @ [v])) (zip (drop k modes) vibs))"

definition freq_step :: "job_state \<Rightarrow> string \<Rightarrow> py_error + job_state" where
  "freq_step st line =
     (if length (strip line) = 0 then
        (case normal_frequencies st of None \<Rightarrow> Inl TypeError
         | Some modes \<Rightarrow>
             if modes = [] then Inl IndexError
             else if length (snd (last modes)) = 0 then Inr st
             else Inr (st\<lparr>parse_freq := False\<rparr>))
      else
        (case floats_of (drop 1 (split_ws (strip line))) of Inl e \<Rightarrow> Inl e
         | Inr vibs \<Rightarrow>
            (case normal_frequencies st of None \<Rightarrow> Inl TypeError
             | Some modes \<Rightarrow> Inr (st\<lparr>normal_frequencies := Some (add_vibs modes vibs)\<rparr>))))"

definition proj_freq_step :: "job_state \<Rightarrow> string \<Rightarrow> py_error + job_state" where
  "proj_freq_step st line =
     (if length (strip line) = 0 then
        (case frequencies st of None \<Rightarrow> Inl TypeError
         | Some modes \<Rightarrow>
             if modes = [] then Inl IndexError
             else if length (snd (last modes)) = 0 then Inr st
             else Inr (st\<lparr>parse_projected_freq := False\<rparr>))
      else
        (case floats_of (drop 1 (split_ws (strip line))) of Inl e \<Rightarrow> Inl e
         | Inr vibs \<Rightarrow>
            (case frequencies st of None \<Rightarrow> Inl TypeError
             | Some modes \<Rightarrow> Inr (st\<lparr>frequencies := Some (add_vibs modes vibs)\<rparr>))))"

definition bset_step :: "job_state \<Rightarrow> string \<Rightarrow> py_error + job_state" where
  "bset_step st line =
     (if strip line = [] then Inr (st\<lparr>parse_bset := False\<rparr>)
      else
        (let tokens = split_ws line in
         case tokens of [] \<Rightarrow> Inl IndexError
         | t0 # rest \<Rightarrow>
             if t0 \<noteq> ''Tag'' \<and> re_match dashes_patt t0 = None then
               Inr (st\<lparr>basis_set := AList.update t0 (dict_zip (drop 1 (bset_header st)) (drop 1 tokens))
                                                   (basis_set st)\<rparr>)
             else if t0 = ''Tag'' then
               (if length tokens \<le> 4 then Inl IndexError
                else Inr (st\<lparr>bset_header := map lower (take 4 tokens @ drop 5 tokens)\<rparr>))
             else Inr st))"

text \<open>
  \<open>if len(h) < row: h.append(vals) else: h[row - 1].extend(vals)\<close>.
\<close>

definition add_row :: "'a list list \<Rightarrow> int \<Rightarrow> 'a list \<Rightarrow> py_error + 'a list list" where
  "add_row h row vals =
     (if int (length h) < row then Inr (h @ [vals])
      else (case py_index (length h) (row - 1) of None \<Rightarrow> Inl IndexError
            | Some i \<Rightarrow> Inr (h[i := h ! i @ vals])))"

definition hess_step :: "job_state \<Rightarrow> string \<Rightarrow> py_error + job_state" where
  "hess_step st line =
     (if strip line = [] then Inr st
      else
        (case hessian st of None \<Rightarrow> Inl TypeError
         | Some h \<Rightarrow>
            if length h > 0 \<and> contains ''----------'' line then Inr (st\<lparr>parse_hess := False\<rparr>)
            else
              (let tokens = split_ws (strip line) in
               if length tokens > 1 then
                 (case py_int (tokens ! 0) of None \<Rightarrow> Inr st
                  | Some row \<Rightarrow>
                      if isfloatstring (tokens ! 1) then Inr st
                      else
                        (case floats_of (map fort2py (drop 1 tokens)) of Inl e \<Rightarrow> Inl e
                         | Inr vals \<Rightarrow>
                            (case add_row h row vals of Inl e \<Rightarrow> Inl e
                             | Inr h' \<Rightarrow> Inr (st\<lparr>hessian := Some h'\<rparr>))))
               else Inr st)))"

definition proj_hess_step :: "job_state \<Rightarrow> string \<Rightarrow> py_error + job_state" where
  "proj_hess_step st line =
     (if strip line = [] then Inr st
      else
        (case hessian st of None \<Rightarrow> Inl TypeError
         | Some h \<Rightarrow>
            (let nat3 = length h; tokens = split_ws (strip line) in
             if length tokens > 1 then
               (case py_int (tokens ! 0) of None \<Rightarrow> Inr st
                | Some row \<Rightarrow>
                    if isfloatstring (tokens ! 1) then Inr st
                    else
                      (case floats_of (map fort2py (drop 1 tokens)) of Inl e \<Rightarrow> Inl e
                       | Inr vals \<Rightarrow>
                          (case projected_hessian st of None \<Rightarrow> Inl TypeError
                           | Some ph \<Rightarrow>
                              (case add_row ph row vals of Inl e \<Rightarrow> Inl e
                               | Inr ph' \<Rightarrow>
                                  Inr (st\<lparr>projected_hessian := Some ph',
                                          parse_proj_hess := (if length (last ph') = nat3 then False
                                                              else parse_proj_hess st)\<rparr>)))))
             else Inr st)))"

text \<open>The last branch of the chain: no block is being read.\<close>

definition gas_step :: "job_state \<Rightarrow> string \<Rightarrow> py_error + job_state" where
  "gas_step st line =
     (case re_search energy_gas_patt line of None \<Rightarrow> Inr st
      | Some g \<Rightarrow>
          if energies st = [] then Inl IndexError
          else
            (let cosmo_scf_energy = last (energies st) in
             case Energy_Ha_to_eV (grp g 1) of Inl e \<Rightarrow> Inl e
             | Inr en \<Rightarrow>
                 Inr (st\<lparr>energies := butlast (energies st) @
                        [Solvated (AList.update ''gas phase'' (Scalar en)
                                     (AList.update ''cosmo scf'' cosmo_scf_energy []))]\<rparr>)))"

definition sol_step :: "job_state \<Rightarrow> string \<Rightarrow> py_error + job_state" where
  "sol_step st line =
     (case re_search energy_sol_patt line of None \<Rightarrow> Inr st
      | Some g \<Rightarrow>
          if energies st = [] then Inl IndexError
          else
            (case Energy_Ha_to_eV (grp g 1) of Inl e \<Rightarrow> Inl e
             | Inr en \<Rightarrow>
                 (case last (energies st) of
                    Scalar x \<Rightarrow> Inl TypeError
                  | Solvated d \<Rightarrow>
                      Inr (st\<lparr>energies := butlast (energies st) @
                             [Solvated (AList.update ''sol phase'' (Scalar en) d)]\<rparr>))))"

definition geometry_header :: string where
  "geometry_header = ''Geometry '' @ [CHR 0x22] @ ''geometry'' @ [CHR 0x22]"

definition bset_header_line :: string where
  "bset_header_line = ''Summary of '' @ [CHR 0x22] @ ''ao basis'' @ [CHR 0x22]"

definition force_header :: string where
  "force_header = ''atom               coordinates                        gradient''"

definition new_modes :: "mode list option \<Rightarrow> pyfloat list \<Rightarrow> mode list option" where
  "new_modes ms fs = Some ((case ms of None \<Rightarrow> [] | Some m \<Rightarrow> m) @ map (\<lambda>f. (f, [])) fs)"

text \<open>\<open>if not h: h = []\<close>.\<close>

definition or_empty :: "'a list option \<Rightarrow> 'a list option" where
  "or_empty h = (case h of None \<Rightarrow> Some [] | Some r \<Rightarrow> Some r)"

definition trigger_step :: "string \<Rightarrow> job_state \<Rightarrow> string \<Rightarrow> py_error + job_state" where
  "trigger_step output st line =
     (case re_search_alts preamble_patt line of
        Some g \<Rightarrow>
          (let val = (case py_int (grp g 2) of Some i \<Rightarrow> IntV i | None \<Rightarrow> StrV (grp g 2));
               k = replace '' '' ''_'' (replace ''No. of '' ''n'' (grp g 1))
           in Inr (st\<lparr>data := AList.update (lower k) val (data st)\<rparr>))
      | None \<Rightarrow>
          if contains geometry_header line then Inr (st\<lparr>parse_geom := True\<rparr>)
          else if contains bset_header_line line then Inr (st\<lparr>parse_bset := True\<rparr>)
          else if contains ''P.Frequency'' line then
            (case floats_of (drop 1 (split_ws (strip line))) of Inl e \<Rightarrow> Inl e
             | Inr fs \<Rightarrow> Inr (st\<lparr>parse_projected_freq := True,
                                 frequencies := new_modes (frequencies st) fs\<rparr>))
          else if contains ''Frequency'' line then
            (let tokens = split_ws (strip line) in
             if length tokens > 1 \<and> tokens ! 0 = ''Frequency'' then
               (case floats_of (drop 1 (split_ws (strip line))) of Inl e \<Rightarrow> Inl e
                | Inr fs \<Rightarrow> Inr (st\<lparr>parse_freq := True,
                                    normal_frequencies := new_modes (normal_frequencies st) fs\<rparr>))
             else Inr st)
          else if contains ''MASS-WEIGHTED NUCLEAR HESSIAN'' line then
            Inr (st\<lparr>parse_hess := True, hessian := or_empty (hessian st)\<rparr>)
          else if contains ''MASS-WEIGHTED PROJECTED HESSIAN'' line then
            Inr (st\<lparr>parse_proj_hess := True, projected_hessian := or_empty (projected_hessian st)\<rparr>)
          else if contains force_header line then Inr (st\<lparr>parse_force := True\<rparr>)
          else if job_type st = [] \<and> prefix ''NWChem'' (strip line) then
            Inr (st\<lparr>job_type := (if strip line = ''NWChem DFT Module'' \<and>
                                      contains ''COSMO solvation results'' output
                                   then strip line @ '' COSMO'' else strip line)\<rparr>)
          else
            (case re_search corrections_patt line of None \<Rightarrow> Inr st
             | Some g \<Rightarrow>
                 (case kJ_mol_to_eV_atom (grp g 2) of Inl e \<Rightarrow> Inl e
                  | Inr v \<Rightarrow> Inr (st\<lparr>corrections := AList.update (grp g 1) v (corrections st)\<rparr>))))"

definition idle_step :: "string \<Rightarrow> job_state \<Rightarrow> string \<Rightarrow> py_error + job_state" where
  "idle_step output st line =
     (case re_search energy_patt line of
        Some g \<Rightarrow>
          (case Energy_Ha_to_eV (grp g 1) of Inl e \<Rightarrow> Inl e
           | Inr en \<Rightarrow> Inr (st\<lparr>energies := energies st @ [Scalar en], parse_time := True\<rparr>))
      | None \<Rightarrow>
          (case gas_step st line of Inl e \<Rightarrow> Inl e
           | Inr st1 \<Rightarrow>
          (case sol_step st1 line of Inl e \<Rightarrow> Inl e
           | Inr st2 \<Rightarrow> trigger_step output st2 line)))"

definition block_step :: "string \<Rightarrow> job_state \<Rightarrow> string \<Rightarrow> py_error + job_state" where
  "block_step output st line =
     (if parse_force st then force_step st line
      else if parse_freq st then freq_step st line
      else if parse_projected_freq st then proj_freq_step st line
      else if parse_bset st then bset_step st line
      else if parse_hess st then hess_step st line
      else if parse_proj_hess st then proj_hess_step st line
      else idle_step output st line)"

text \<open>The body of \<open>for line in output.split("\n")\<close>.\<close>

definition step :: "string \<Rightarrow> job_state \<Rightarrow> string \<Rightarrow> py_error + job_state" where
  "step output st line =
     (let st1 = time_step (add_errors st line) line in
      case (if parse_geom st1 then geom_step st1 line else Inr st1) of
        Inl e \<Rightarrow> Inl e
      | Inr st2 \<Rightarrow> block_step output st2 line)"

fun parse_lines :: "string \<Rightarrow> job_state \<Rightarrow> string list \<Rightarrow> py_error + job_state" where
  "parse_lines output st [] = Inr st"
| "parse_lines output st (l # ls) =
     (case step output st l of Inl e \<Rightarrow> Inl e | Inr st' \<Rightarrow> parse_lines output st' ls)"

section \<open>NwOutput._parse_job: after the scan\<close>

text \<open>\<open>mode[:] = zip(*[iter(mode)] * 3, strict=False)\<close>.\<close>

fun regroup :: "'a list \<Rightarrow> ('a \<times> 'a \<times> 'a) list" where
  "regroup (a # b # c # rest) = (a, b, c) # regroup rest"
| "regroup rest = []"

definition regroup_modes :: "mode list option \<Rightarrow> (pyfloat \<times> (pyfloat \<times> pyfloat \<times> pyfloat) list) list option" where
  "regroup_modes ms = map_option (map (\<lambda>(freq, m). (freq, regroup m))) ms"

text \<open>
  \<open>for ii in range(len_hess): for jj in range(ii + 1, len_hess):
  h[ii].append(h[jj][ii])\<close>; reading \<open>h[jj][ii]\<close> in a row that short raises IndexError.
\<close>

fun sym_inner :: "'a list list \<Rightarrow> nat \<Rightarrow> nat list \<Rightarrow> py_error + 'a list list" where
  "sym_inner h ii [] = Inr h"
| "sym_inner h ii (jj # jjs) =
     (if ii < length (h ! jj) then sym_inner (h[ii := h ! ii @ [h ! jj ! ii]]) ii jjs
      else Inl IndexError)"

fun sym_outer :: "'a list list \<Rightarrow> nat list \<Rightarrow> py_error + 'a list list" where
  "sym_outer h [] = Inr h"
| "sym_outer h (ii # iis) =
     (case sym_inner h ii [ii + 1 ..< length h] of Inl e \<Rightarrow> Inl e
      | Inr h' \<Rightarrow> sym_outer h' iis)"

definition symmetrize :: "'a list list option \<Rightarrow> py_error + 'a list list option" where
  "symmetrize hs =
     (case hs of None \<Rightarrow> Inr None
      | Some h \<Rightarrow>
          if h = [] then Inr (Some h)
          else (case sym_outer h [0 ..< length h] of Inl e \<Rightarrow> Inl e | Inr h' \<Rightarrow> Inr (Some h')))"

text \<open>The dict returned: the entries of \<open>data\<close> read from the text, and the fixed keys.\<close>

record job_data =
  data_scalars :: "(string \<times> pyval) list"
  data_job_type :: string
  data_energies :: "energy_entry list"
  data_corrections :: "(string \<times> float_with_unit) list"
  data_molecules :: "molecule list"
  data_structures :: "periodic_structure list"
  data_basis_set :: "(string \<times> (string \<times> string) list) list"
  data_errors :: "string list"
  data_has_error :: bool
  data_frequencies :: "(pyfloat \<times> (pyfloat \<times> pyfloat \<times> pyfloat) list) list option"
  data_normal_frequencies :: "(pyfloat \<times> (pyfloat \<times> pyfloat \<times> pyfloat) list) list option"
  data_hessian :: "pyfloat list list option"
  data_projected_hessian :: "pyfloat list list option"
  data_forces :: "pyfloat list list"
  data_task_time :: pyval

definition finish :: "job_state \<Rightarrow> py_error + job_data" where
  "finish st =
     (case symmetrize (hessian st) of Inl e \<Rightarrow> Inl e
      | Inr hess \<Rightarrow>
     (case symmetrize (projected_hessian st) of Inl e \<Rightarrow> Inl e
      | Inr proj \<Rightarrow>
         Inr \<lparr>data_scalars = data st,
              data_job_type = job_type st,
              data_energies = energies st,
              data_corrections = corrections st,
              data_molecules = molecules st,
              data_structures = structures st,
              data_basis_set = basis_set st,
              data_errors = errors st,
              data_has_error = (length (errors st) > 0),
              data_frequencies = regroup_modes (frequencies st),
              data_normal_frequencies = regroup_modes (normal_frequencies st),
              data_hessian = hess,
              data_projected_hessian = proj,
              data_forces = all_forces st,
              data_task_time = time st\<rparr>))"

definition scan :: "string \<Rightarrow> py_error + job_state" where
  "scan output = parse_lines output init_state (split_nl output)"

definition parse_job :: "string \<Rightarrow> py_error + job_data" where
  "parse_job output = (case scan output of Inl e \<Rightarrow> Inl e | Inr st \<Rightarrow> finish st)"

section \<open>NwOutput.__init__ and _parse_preamble\<close>

definition parse_preamble :: "string \<Rightarrow> (string \<times> string) list" where
  "parse_preamble preamble =
     foldl (\<lambda>info line.
              (let tokens = split_chr (CHR ''='') [] line in
               if length tokens > 1 then AList.update (strip (hd tokens)) (strip (last tokens)) info
               else info))
           [] (split_nl preamble)"

fun parse_jobs :: "string list \<Rightarrow> py_error + job_data list" where
  "parse_jobs [] = Inr []"
| "parse_jobs (c # cs) =
     (case parse_job c of Inl e \<Rightarrow> Inl e
      | Inr j \<Rightarrow> (case parse_jobs cs of Inl e \<Rightarrow> Inl e | Inr js \<Rightarrow> Inr (j # js)))"

record nw_output =
  raw :: string
  job_info :: "(string \<times> string) list"
  jobs :: "job_data list"

text \<open>The constructor, from the text \<open>data\<close> read from the file.\<close>

definition NwOutput_init :: "string \<Rightarrow> py_error + nw_output" where
  "NwOutput_init text_data =
     (let chunks = split_str ''NWChem Input Module'' [] text_data;
          chunks1 = (if contains ''CITATION'' (last chunks) then butlast chunks else chunks)
      in case chunks1 of [] \<Rightarrow> Inl IndexError
         | preamble # rest \<Rightarrow>
             (case parse_jobs rest of Inl e \<Rightarrow> Inl e
              | Inr js \<Rightarrow> Inr \<lparr>raw = text_data, job_info = parse_preamble preamble, jobs = js\<rparr>))"

section \<open>Notions used to state the properties\<close>

text \<open>\<open>"\n".join(lines)\<close>: the text whose lines are \<open>lines\<close>.\<close>

fun join_nl :: "string list \<Rightarrow> string" where
  "join_nl [] = []"
| "join_nl [l] = l"
| "join_nl (l # m # ls) = l @ CHR 0x0A # join_nl (m # ls)"

text \<open>
  The log prints the lower triangle of a hessian with its diagonal: once a block is read to
  its end, row \<open>i\<close> (from 1) holds its columns 1 to \<open>i\<close>.
\<close>

definition lower_tri :: "'a list list \<Rightarrow> bool" where
  "lower_tri h = (map length h = map Suc [0 ..< length h])"

definition fully_read :: "'a list list option \<Rightarrow> bool" where
  "fully_read hs = (case hs of None \<Rightarrow> True | Some h \<Rightarrow> lower_tri h)"


definition flat3 :: "('a \<times> 'a \<times> 'a) list \<Rightarrow> 'a list" where
  "flat3 ts = concat (map (\<lambda>(a, b, c). [a, b, c]) ts)"

text \<open>No block of the \<open>if/elif\<close> chain is being read: the line goes to the last branch.\<close>

definition idle :: "job_state \<Rightarrow> bool" where
  "idle st = (\<not> parse_force st \<and> \<not> parse_freq st \<and> \<not> parse_projected_freq st \<and>
              \<not> parse_bset st \<and> \<not> parse_hess st \<and> \<not> parse_proj_hess st)"

text \<open>A line on which none of the four tags of \<open>parse_tddft\<close> comes first.\<close>

definition tags_free :: "string \<Rightarrow> bool" where
  "tags_free line = (\<not> contains start_tag line \<and> \<not> contains end_tag line \<and>
                     \<not> contains singlet_tag line \<and> \<not> contains triplet_tag line)"

text \<open>The crafted block of the specification's TDDFT test.\<close>

definition crafted :: string where
  "crafted = join_nl [''Convergence criterion met'', ''singlet excited'', ''Root 1 ... 2.5 eV'',
                      ''Dipole Oscillator Strength 0.3'', ''Excited state energy'']"

text \<open>
  What the two loops leave when no read fails: the first \<open>k\<close> rows each extended by the
  entries below the diagonal in their column.
\<close>

definition sym_rows :: "'a list list \<Rightarrow> nat \<Rightarrow> 'a list list" where
  "sym_rows h k =
     map (\<lambda>i. if i < k then h ! i @ map (\<lambda>j. h ! j ! i) [i + 1 ..< length h] else h ! i)
         [0 ..< length h]"

text \<open>Every row below the diagonal reaches its column: no read of the loops fails.\<close>

definition rows_reach :: "'a list list \<Rightarrow> bool" where
  "rows_reach h = (\<forall>j < length h. \<forall>i < j. i < length (h ! j))"






text \<open>
  Two chunks with one projected mode: the first gives it four displacement scalars for two
  atoms, the second three scalars for one atom.
\<close>

definition four_scalars_chunk :: string where
  "four_scalars_chunk = join_nl
     [''          No. of atoms     :     2'',
      '' P.Frequency        1.0'',
      '''',
      ''           1     0.1'',
      ''           2     0.2'',
      ''           3     0.3'',
      ''           4     0.4'']"

definition three_scalars_chunk :: string where
  "three_scalars_chunk = join_nl
     [''          No. of atoms     :     1'',
      '' P.Frequency        1.0'',
      '''',
      ''           1     0.1'',
      ''           2     0.2'',
      ''           3     0.3'']"

text \<open>A log whose two converged singlet roots are not in ascending order of energy.\<close>

definition unsorted_roots :: string where
  "unsorted_roots = join_nl
     [''Convergence criterion met'',
      ''  Root   1 singlet a    0.110 a.u.    3.0 eV'',
      ''   Dipole Oscillator Strength       1.0'',
      ''  Root   2 singlet a    0.037 a.u.    1.0 eV'',
      ''   Dipole Oscillator Strength       1.0'']"

text \<open>A chunk with the three energy lines of a solvated run.\<close>

definition cosmo_chunk :: string where
  "cosmo_chunk = join_nl
     [''         Total DFT energy =      -76.4'',
      ''                 gas phase energy =       -76.5'',
      ''                 sol phase energy =       -76.6'']"

text \<open>The basis summary of the specification's test, under its header line.\<close>

definition basis_chunk :: string where
  "basis_chunk = join_nl
     [bset_header_line,
      ''Tag  Description  Shells  Functions  Other  Type'',
      ''C  description  2  3  s'']"

text \<open>A total energy line, a line of no interest, and the line of task times.\<close>

definition timing_chunk :: string where
  "timing_chunk = join_nl
     [''         Total DFT energy =      -76.4'',
      ''      One electron energy =     -123.0'',
      '' Task  times  cpu:        0.2s     wall:        0.3s'']"

text \<open>
  A total energy line, then a line holding a total energy and a gas phase energy; and a
  total energy line, then a gas phase line whose number is a lone dash.
\<close>

definition total_and_gas_chunk :: string where
  "total_and_gas_chunk = join_nl
     [''         Total DFT energy =      -76.4'',
      ''         Total SCF energy =      -1.0     gas phase energy =       -76.5'']"

definition gas_dash_chunk :: string where
  "gas_dash_chunk = join_nl
     [''         Total DFT energy =      -76.4'',
      ''                 gas phase energy =       -'']"

text \<open>
  The basis summary with a row whose tag begins with a dash, and one whose \<open>Tag\<close> row has
  four columns.
\<close>

definition dash_row_chunk :: string where
  "dash_row_chunk = join_nl
     [bset_header_line,
      ''Tag  Description  Shells  Functions  Other  Type'',
      ''-C  description  2  3  s'']"

definition short_header_chunk :: string where
  "short_header_chunk = join_nl
     [bset_header_line,
      ''Tag  Description  Shells  Functions'']"

text \<open>
  Arithmetic without rounding on finite values, for the examples. Binary64 operations are
  correctly rounded, so \<open>exact_ops\<close> is binary64 arithmetic wherever the operands are finite
  and the exact result is a binary64 number; the examples below stay there for their grid
  and their width (small multiples of 1/128), and state nothing of the y values, where it is
  not. On any other operands it answers \<open>nan\<close> and stands for nothing.
\<close>

definition exact2 :: "(rat \<Rightarrow> rat \<Rightarrow> rat) \<Rightarrow> pyfloat \<Rightarrow> pyfloat \<Rightarrow> pyfloat" where
  "exact2 f a b = (case a of Fin x \<Rightarrow> (case b of Fin y \<Rightarrow> Fin (f x y) | _ \<Rightarrow> NaN) | _ \<Rightarrow> NaN)"

definition exact_div :: "pyfloat \<Rightarrow> pyfloat \<Rightarrow> pyfloat" where
  "exact_div a b =
     (case a of Fin x \<Rightarrow> (case b of Fin y \<Rightarrow> if y = 0 then NaN else Fin (x / y) | _ \<Rightarrow> NaN)
      | _ \<Rightarrow> NaN)"

definition exact_cmp :: "(rat \<Rightarrow> rat \<Rightarrow> bool) \<Rightarrow> pyfloat \<Rightarrow> pyfloat \<Rightarrow> bool" where
  "exact_cmp p a b = (case a of Fin x \<Rightarrow> (case b of Fin y \<Rightarrow> p x y | _ \<Rightarrow> False) | _ \<Rightarrow> False)"

definition exact_ops :: float_ops where
  "exact_ops =
     \<lparr>fadd = exact2 (\<lambda>x y. x + y), fsub = exact2 (\<lambda>x y. x - y), fmul = exact2 (\<lambda>x y. x * y),
      fdiv = exact_div,
      fabs = (\<lambda>a. case a of Fin x \<Rightarrow> Fin (abs x) | _ \<Rightarrow> NaN),
      fgt = exact_cmp (\<lambda>x y. y < x), fle = exact_cmp (\<lambda>x y. x \<le> y),
      of_py_int = (\<lambda>i. Fin (of_int i)),
      np_pi = Fin (884279719003555 / 281474976710656),
      np_sum = foldl (exact2 (\<lambda>x y. x + y)) (Fin 0)\<rparr>"

text \<open>A log whose one converged singlet root has no oscillator strength line.\<close>

definition bare_root :: string where
  "bare_root = join_nl
     [''Convergence criterion met'',
      ''  Root   1 singlet a    0.110 a.u.    3.0 eV'']"

section \<open>Lemmas on lines and on the bookkeeping of every line\<close>

lemma split_chr_app: "d \<notin> set l \<Longrightarrow> split_chr d cur (l @ rest) = split_chr d (cur @ l) rest"
  by (induction l arbitrary: cur) auto

lemma split_nl_join:
  "ls \<noteq> [] \<Longrightarrow> \<forall>l \<in> set ls. CHR 0x0A \<notin> set l \<Longrightarrow> split_nl (join_nl ls) = ls"
proof (induction ls rule: join_nl.induct)
  case 1 then show ?case by simp
next
  case (2 l)
  then show ?case using split_chr_app[of "CHR 0x0A" l "[]" "[]"] by (simp add: split_nl_def)
next
  case (3 l m ls)
  then have "split_nl (join_nl (m # ls)) = m # ls" by simp
  moreover have "split_nl (l @ CHR 0x0A # join_nl (m # ls)) = l # split_nl (join_nl (m # ls))"
    using 3(3) split_chr_app[of "CHR 0x0A" l "[]" "CHR 0x0A # join_nl (m # ls)"] by (simp add: split_nl_def)
  ultimately show ?case by simp
qed

lemmas char_class_defs = in_cls_def isspace_def isdigit_def isword_def isupper_def islower_def

lemmas patt_defs = energy_patt_def energy_gas_patt_def energy_sol_patt_def coord_patt_def
  lat_vector_patt_def corrections_patt_def preamble_patt_def force_patt_def time_patt_def
  dashes_patt_def geometry_header_def bset_header_line_def force_header_def

lemma flags_pre [simp]:
  "parse_force (time_step (add_errors st l) l) = parse_force st"
  "parse_freq (time_step (add_errors st l) l) = parse_freq st"
  "parse_projected_freq (time_step (add_errors st l) l) = parse_projected_freq st"
  "parse_bset (time_step (add_errors st l) l) = parse_bset st"
  "parse_hess (time_step (add_errors st l) l) = parse_hess st"
  "parse_proj_hess (time_step (add_errors st l) l) = parse_proj_hess st"
  "parse_geom (time_step (add_errors st l) l) = parse_geom st"
  "hessian (time_step (add_errors st l) l) = hessian st"
  "projected_hessian (time_step (add_errors st l) l) = projected_hessian st"
  by (simp_all add: time_step_def add_errors_def split: option.splits)

section \<open>A projected hessian block before any hessian block\<close>

lemma proj_hess_header_step:
  "step output init_state ''MASS-WEIGHTED PROJECTED HESSIAN'' =
     Inr (init_state\<lparr>parse_proj_hess := True, projected_hessian := Some []\<rparr>)"
  by (simp add: step_def init_state_def add_errors_def error_defs_def time_step_def block_step_def
      idle_step_def re_match_def gas_step_def sol_step_def trigger_step_def or_empty_def
      patt_defs char_class_defs)

lemma proj_hess_no_hessian_step:
  assumes "strip l \<noteq> []"
  shows "step output (init_state\<lparr>parse_proj_hess := True, projected_hessian := Some []\<rparr>) l = Inl TypeError"
  using assms
  by (simp add: step_def init_state_def add_errors_def time_step_def block_step_def proj_hess_step_def)

text \<open>
  C10. A chunk whose first line is the header \<open>MASS-WEIGHTED PROJECTED HESSIAN\<close> and whose
  second line is not blank makes \<open>_parse_job\<close> raise: \<open>hessian\<close> is still \<open>None\<close> when the
  projected block takes \<open>len(hessian)\<close>, whatever the second line and the lines after it are.
\<close>

theorem projected_hessian_first_raises:
  assumes "strip l \<noteq> []" and "\<forall>x \<in> set (l # ls). CHR 0x0A \<notin> set x"
  shows "parse_job (join_nl (''MASS-WEIGHTED PROJECTED HESSIAN'' # l # ls)) = Inl TypeError"
proof -
  let ?hdr = "''MASS-WEIGHTED PROJECTED HESSIAN''"
  let ?out = "join_nl (?hdr # l # ls)"
  have "\<forall>x \<in> set (?hdr # l # ls). CHR 0x0A \<notin> set x"
    using assms(2) by simp
  then have lines: "split_nl ?out = ?hdr # l # ls"
    by (intro split_nl_join) simp_all
  have "parse_lines out init_state (?hdr # l # ls) = Inl TypeError" for out
    by (simp add: proj_hess_header_step proj_hess_no_hessian_step[OF assms(1)])
  then show ?thesis
    unfolding parse_job_def scan_def lines by simp
qed

theorem projected_hessian_first_raises_witness:
  "strip ''    1    4.0D+01'' \<noteq> [] \<and> CHR 0x0A \<notin> set ''    1    4.0D+01'' \<and>
   parse_job (join_nl [''MASS-WEIGHTED PROJECTED HESSIAN'', ''    1    4.0D+01'']) = Inl TypeError"
  using projected_hessian_first_raises[of "''    1    4.0D+01''" "[]"]
  by (simp add: strip_def isspace_def)

section \<open>Malformed lines\<close>








section \<open>TDDFT roots\<close>

lemma crafted_roots:
  "parse_tddft crafted =
     Inr [(''singlet'', [\<lparr>energy = Fin (5/2), osc_strength = Some (Fin (3/10))\<rparr>]), (''triplet'', [])]"
  by code_simp

text \<open>
  C4, the claim as stated fails. With the flag true, a line with \<open>Root\<close> and \<open>eV\<close> that also
  holds \<open>singlet excited\<close> only sets the label and appends no root; one whose second-to-last
  token is no float raises ValueError; one of a single token raises IndexError; and a
  \<open>Dipole Oscillator Strength\<close> line with no root under the label raises IndexError.
\<close>

theorem root_line_not_appended:
  "parse_tddft (join_nl [''Convergence criterion met'', ''Root 3 5.0 eV singlet excited''])
     = Inr [(''singlet'', []), (''triplet'', [])] \<and>
   parse_tddft (join_nl [''Convergence criterion met'', ''Root 1 ******** eV'']) = Inl ValueError \<and>
   parse_tddft (join_nl [''Convergence criterion met'', ''RooteV'']) = Inl IndexError \<and>
   parse_tddft (join_nl [''Convergence criterion met'', ''Dipole Oscillator Strength 0.3''])
     = Inl IndexError"
  by code_simp

text \<open>
  C4, as amended. The four tags come first, in the order \<open>Convergence criterion met\<close>,
  \<open>Excited state energy\<close>, \<open>singlet excited\<close>, \<open>triplet excited\<close>: a line that holds one only
  sets the flag or the label. A line that holds none of them does nothing while the flag is
  false, or when it holds neither \<open>Root\<close> with \<open>eV\<close> nor \<open>Dipole Oscillator Strength\<close>. While
  the flag is true, such a line with \<open>Root\<close> and \<open>eV\<close> raises IndexError if it has fewer than
  two tokens and ValueError if its second-to-last token is no float, and else appends a root
  of that energy under the current label; such a line with \<open>Dipole Oscillator Strength\<close>
  (and not both \<open>Root\<close> and \<open>eV\<close>) raises ValueError if its last token is no float and
  IndexError if the label has no root yet, and else sets \<open>osc_strength\<close> of the last root
  under the label. The crafted block gives one singlet root, energy 2.5 and oscillator
  strength 0.3, and no triplet root.
\<close>

theorem tddft_roots:
  "(contains start_tag (strip l) \<longrightarrow> tddft_line t l = Inr (t\<lparr>inside := True\<rparr>))
 \<and> (\<not> contains start_tag (strip l) \<and> contains end_tag (strip l)
    \<longrightarrow> tddft_line t l = Inr (t\<lparr>inside := False\<rparr>))
 \<and> (\<not> contains start_tag (strip l) \<and> \<not> contains end_tag (strip l) \<and>
    contains singlet_tag (strip l) \<longrightarrow> tddft_line t l = Inr (t\<lparr>state := ''singlet''\<rparr>))
 \<and> (\<not> contains start_tag (strip l) \<and> \<not> contains end_tag (strip l) \<and>
    \<not> contains singlet_tag (strip l) \<and> contains triplet_tag (strip l)
    \<longrightarrow> tddft_line t l = Inr (t\<lparr>state := ''triplet''\<rparr>))
 \<and> (tags_free (strip l) \<and>
    (\<not> inside t \<or> (\<not> (contains ''Root'' (strip l) \<and> contains ''eV'' (strip l)) \<and>
                      \<not> contains ''Dipole Oscillator Strength'' (strip l)))
    \<longrightarrow> tddft_line t l = Inr t)
 \<and> (inside t \<and> tags_free (strip l) \<and> contains ''Root'' (strip l) \<and> contains ''eV'' (strip l) \<and>
    map_of (roots t) (state t) = Some rs
    \<longrightarrow> tddft_line t l =
          (if length (split_ws (strip l)) < 2 then Inl IndexError
           else (case py_float (split_ws (strip l) ! (length (split_ws (strip l)) - 2)) of
                   None \<Rightarrow> Inl ValueError
                 | Some en \<Rightarrow>
                     Inr (t\<lparr>roots := AList.update (state t)
                                        (rs @ [\<lparr>energy = en, osc_strength = None\<rparr>]) (roots t)\<rparr>))))
 \<and> (inside t \<and> tags_free (strip l) \<and> \<not> (contains ''Root'' (strip l) \<and> contains ''eV'' (strip l)) \<and>
    contains ''Dipole Oscillator Strength'' (strip l) \<and>
    map_of (roots t) (state t) = Some rs
    \<longrightarrow> tddft_line t l =
          (if split_ws (strip l) = [] then Inl IndexError
           else (case py_float (last (split_ws (strip l))) of
                   None \<Rightarrow> Inl ValueError
                 | Some osc \<Rightarrow>
                     if rs = [] then Inl IndexError
                     else Inr (t\<lparr>roots := AList.update (state t)
                                   (butlast rs @ [(last rs)\<lparr>osc_strength := Some osc\<rparr>]) (roots t)\<rparr>))))
 \<and> parse_tddft crafted =
     Inr [(''singlet'', [\<lparr>energy = Fin (5/2), osc_strength = Some (Fin (3/10))\<rparr>]), (''triplet'', [])]"
proof (intro conjI impI)
  show "parse_tddft crafted =
     Inr [(''singlet'', [\<lparr>energy = Fin (5/2), osc_strength = Some (Fin (3/10))\<rparr>]), (''triplet'', [])]"
    by (rule crafted_roots)
qed (auto simp: tddft_line_def tags_free_def float_of_def roots_of_def from_end_def Let_def
                last_conv_nth Suc_le_eq split: option.splits)

theorem tddft_roots_witness:
  "tddft_line \<lparr>inside = True, state = ''singlet'', roots = [(''singlet'', []), (''triplet'', [])]\<rparr>
       ''  Root   1 singlet b2    0.2942 a.u.    8.0062 eV''
     = Inr \<lparr>inside = True, state = ''singlet'',
            roots = [(''singlet'', [\<lparr>energy = Fin (40031/5000), osc_strength = None\<rparr>]), (''triplet'', [])]\<rparr>
   \<and> tddft_line \<lparr>inside = True, state = ''singlet'',
            roots = [(''singlet'', [\<lparr>energy = Fin (40031/5000), osc_strength = None\<rparr>]), (''triplet'', [])]\<rparr>
       ''   Dipole Oscillator Strength       0.01418''
     = Inr \<lparr>inside = True, state = ''singlet'',
            roots = [(''singlet'', [\<lparr>energy = Fin (40031/5000), osc_strength = Some (Fin (709/50000))\<rparr>]), (''triplet'', [])]\<rparr>
   \<and> tddft_line \<lparr>inside = True, state = ''singlet'', roots = [(''singlet'', []), (''triplet'', [])]\<rparr>
       ''  Root   1 singlet b2    0.2942 a.u.  ******** eV''
     = Inl ValueError
   \<and> tddft_line \<lparr>inside = True, state = ''singlet'', roots = [(''singlet'', []), (''triplet'', [])]\<rparr>
       ''  Root   1 triplet excited    0.2942 a.u.    8.0062 eV''
     = Inr \<lparr>inside = True, state = ''triplet'', roots = [(''singlet'', []), (''triplet'', [])]\<rparr>"
proof -
  let ?t0 = "\<lparr>inside = True, state = ''singlet'', roots = [(''singlet'', []), (''triplet'', [])]\<rparr>"
  let ?l1 = "''  Root   1 singlet b2    0.2942 a.u.    8.0062 eV''"
  let ?l3 = "''  Root   1 singlet b2    0.2942 a.u.  ******** eV''"
  let ?l4 = "''  Root   1 triplet excited    0.2942 a.u.    8.0062 eV''"
  let ?r1 = "\<lparr>energy = Fin (40031/5000), osc_strength = None\<rparr>"
  let ?t1 = "\<lparr>inside = True, state = ''singlet'', roots = [(''singlet'', [?r1]), (''triplet'', [])]\<rparr>"
  let ?l2 = "''   Dipole Oscillator Strength       0.01418''"
  have n1: "(length (split_ws (strip ?l1)) < 2) = False" by code_simp
  have w1: "split_ws (strip ?l1) ! (length (split_ws (strip ?l1)) - 2) = ''8.0062''" by code_simp
  have n3: "(length (split_ws (strip ?l3)) < 2) = False" by code_simp
  have w3: "split_ws (strip ?l3) ! (length (split_ws (strip ?l3)) - 2) = ''********''" by code_simp
  have n2: "(split_ws (strip ?l2) = []) = False" by code_simp
  have w2: "last (split_ws (strip ?l2)) = ''0.01418''" by code_simp
  have f1: "py_float ''8.0062'' = Some (Fin (40031/5000))" by code_simp
  have f2: "py_float ''0.01418'' = Some (Fin (709/50000))" by code_simp
  have f3: "py_float ''********'' = None" by code_simp
  have c1: "tags_free (strip ?l1)" by code_simp
  have c1b: "contains ''Root'' (strip ?l1)" by code_simp
  have c1c: "contains ''eV'' (strip ?l1)" by code_simp
  have c3: "tags_free (strip ?l3)" by code_simp
  have c3b: "contains ''Root'' (strip ?l3)" by code_simp
  have c3c: "contains ''eV'' (strip ?l3)" by code_simp
  have c2: "tags_free (strip ?l2)" by code_simp
  have c2b: "\<not> (contains ''Root'' (strip ?l2) \<and> contains ''eV'' (strip ?l2))" by code_simp
  have c2c: "contains ''Dipole Oscillator Strength'' (strip ?l2)" by code_simp
  have c4: "\<not> contains start_tag (strip ?l4)" "\<not> contains end_tag (strip ?l4)"
    "\<not> contains singlet_tag (strip ?l4)" "contains triplet_tag (strip ?l4)" by code_simp+
  have m1: "map_of (roots ?t0) (state ?t0) = Some []" by simp
  have m2: "map_of (roots ?t1) (state ?t1) = Some [?r1]" by simp
  have i1: "inside ?t0" and i2: "inside ?t1" by simp_all
  note root = tddft_roots[THEN conjunct2, THEN conjunct2, THEN conjunct2, THEN conjunct2,
      THEN conjunct2, THEN conjunct1, rule_format]
  note dipole = tddft_roots[THEN conjunct2, THEN conjunct2, THEN conjunct2, THEN conjunct2,
      THEN conjunct2, THEN conjunct2, THEN conjunct1, rule_format]
  note triplet = tddft_roots[THEN conjunct2, THEN conjunct2, THEN conjunct2, THEN conjunct1,
      rule_format]
  have a: "tddft_line ?t0 ?l1 =
      Inr (?t0\<lparr>roots := AList.update (state ?t0) ([] @ [?r1]) (roots ?t0)\<rparr>)"
    using root[where t = ?t0 and l = ?l1 and rs = "[]", OF conjI[OF i1 conjI[OF c1 conjI[OF c1b conjI[OF c1c m1]]]]]
    unfolding n1 w1 f1 if_False option.case .
  have b: "tddft_line ?t1 ?l2 =
      Inr (?t1\<lparr>roots := AList.update (state ?t1)
             (butlast [?r1] @ [(last [?r1])\<lparr>osc_strength := Some (Fin (709/50000))\<rparr>]) (roots ?t1)\<rparr>)"
    using dipole[where t = ?t1 and l = ?l2 and rs = "[?r1]", OF conjI[OF i2 conjI[OF c2 conjI[OF c2b conjI[OF c2c m2]]]]]
    unfolding n2 w2 f2 if_False option.case by simp
  have c: "tddft_line ?t0 ?l3 = Inl ValueError"
    using root[where t = ?t0 and l = ?l3 and rs = "[]", OF conjI[OF i1 conjI[OF c3 conjI[OF c3b conjI[OF c3c m1]]]]]
    unfolding n3 w3 f3 if_False option.case .
  have d: "tddft_line ?t0 ?l4 = Inr (?t0\<lparr>state := ''triplet''\<rparr>)"
    using triplet[where t = ?t0 and l = ?l4, OF conjI[OF c4(1) conjI[OF c4(2) conjI[OF c4(3) c4(4)]]]] .
  have ea: "?t0\<lparr>roots := AList.update (state ?t0) ([] @ [?r1]) (roots ?t0)\<rparr> = ?t1" by simp
  have eb: "?t1\<lparr>roots := AList.update (state ?t1)
             (butlast [?r1] @ [(last [?r1])\<lparr>osc_strength := Some (Fin (709/50000))\<rparr>]) (roots ?t1)\<rparr>
            = \<lparr>inside = True, state = ''singlet'',
                roots = [(''singlet'', [\<lparr>energy = Fin (40031/5000), osc_strength = Some (Fin (709/50000))\<rparr>]), (''triplet'', [])]\<rparr>"
    by simp
  have ed: "?t0\<lparr>state := ''triplet''\<rparr>
            = \<lparr>inside = True, state = ''triplet'', roots = [(''singlet'', []), (''triplet'', [])]\<rparr>"
    by simp
  show ?thesis using a b c d unfolding ea eb ed by (intro conjI)
qed

section \<open>Symmetry of the hessians\<close>

lemma sym_inner_ok:
  assumes "ii < length h"
    and "\<forall>jj \<in> set jjs. jj < length h \<and> jj \<noteq> ii \<and> ii < length (h ! jj)"
  shows "sym_inner h ii jjs = Inr (h[ii := h ! ii @ map (\<lambda>jj. h ! jj ! ii) jjs])"
  using assms
proof (induction jjs arbitrary: h)
  case Nil
  then show ?case by simp
next
  case (Cons jj jjs)
  let ?h' = "h[ii := h ! ii @ [h ! jj ! ii]]"
  from Cons.prems have jj: "jj < length h" "jj \<noteq> ii" "ii < length (h ! jj)" by simp_all
  have other: "?h' ! k = h ! k" if "k \<noteq> ii" for k using that by simp
  have pre: "\<forall>k \<in> set jjs. k < length ?h' \<and> k \<noteq> ii \<and> ii < length (?h' ! k)"
    using Cons.prems(2) by (auto simp: nth_list_update)
  have "sym_inner ?h' ii jjs = Inr (?h'[ii := ?h' ! ii @ map (\<lambda>k. ?h' ! k ! ii) jjs])"
    using Cons.IH[of ?h'] Cons.prems(1) pre by simp
  moreover have "map (\<lambda>k. ?h' ! k ! ii) jjs = map (\<lambda>k. h ! k ! ii) jjs"
    using Cons.prems(2) by (intro map_cong) auto
  moreover have "?h' ! ii = h ! ii @ [h ! jj ! ii]" using Cons.prems(1) by simp
  ultimately show ?case using jj by simp
qed

lemma length_sym_rows [simp]: "length (sym_rows h k) = length h"
  by (simp add: sym_rows_def)

lemma nth_sym_rows:
  "i < length h \<Longrightarrow> sym_rows h k ! i =
     (if i < k then h ! i @ map (\<lambda>j. h ! j ! i) [i + 1 ..< length h] else h ! i)"
  by (simp add: sym_rows_def)

lemma sym_rows_step:
  assumes "k < length h"
  shows "(sym_rows h k)[k := sym_rows h k ! k @ map (\<lambda>jj. sym_rows h k ! jj ! k) [k + 1 ..< length h]]
         = sym_rows h (Suc k)"
proof (rule nth_equalityI)
  show "length ((sym_rows h k)[k := sym_rows h k ! k @ map (\<lambda>jj. sym_rows h k ! jj ! k) [k + 1 ..< length h]])
        = length (sym_rows h (Suc k))" by simp
next
  fix i
  assume "i < length ((sym_rows h k)[k := sym_rows h k ! k @ map (\<lambda>jj. sym_rows h k ! jj ! k) [k + 1 ..< length h]])"
  then have i: "i < length h" by simp
  have m: "map (\<lambda>jj. sym_rows h k ! jj ! k) [k + 1 ..< length h] = map (\<lambda>j. h ! j ! k) [k + 1 ..< length h]"
    by (intro map_cong) (auto simp: nth_sym_rows)
  show "(sym_rows h k)[k := sym_rows h k ! k @ map (\<lambda>jj. sym_rows h k ! jj ! k) [k + 1 ..< length h]] ! i
        = sym_rows h (Suc k) ! i"
  proof (cases "i = k")
    case True
    then show ?thesis using assms m by (simp add: nth_sym_rows)
  next
    case False
    then show ?thesis using i by (auto simp: nth_sym_rows)
  qed
qed

lemma sym_outer_ok:
  assumes "rows_reach h" "k \<le> length h"
  shows "sym_outer (sym_rows h k) [k ..< length h] = Inr (sym_rows h (length h))"
  using assms(2)
proof (induction "length h - k" arbitrary: k)
  case 0
  then show ?case by simp
next
  case (Suc d)
  then have k: "k < length h" by simp
  have upt: "[k ..< length h] = k # [Suc k ..< length h]" using k by (simp add: upt_conv_Cons)
  have pre: "\<forall>jj \<in> set [k + 1 ..< length (sym_rows h k)].
      jj < length (sym_rows h k) \<and> jj \<noteq> k \<and> k < length (sym_rows h k ! jj)"
    using assms(1) by (auto simp: nth_sym_rows rows_reach_def)
  have "sym_inner (sym_rows h k) k [k + 1 ..< length (sym_rows h k)] = Inr (sym_rows h (Suc k))"
    using sym_inner_ok[OF _ pre] k sym_rows_step[OF k] by simp
  moreover have "sym_outer (sym_rows h (Suc k)) [Suc k ..< length h] = Inr (sym_rows h (length h))"
    using Suc.hyps(1)[of "Suc k"] Suc.hyps(2) k by simp
  ultimately show ?case by (simp add: upt)
qed

lemma sym_rows_0: "sym_rows h 0 = h"
  by (rule nth_equalityI) (simp_all add: nth_sym_rows)

lemma symmetrize_ok:
  assumes "rows_reach h"
  shows "symmetrize (Some h) = Inr (Some (sym_rows h (length h)))"
proof (cases "h = []")
  case True
  then show ?thesis by (simp add: symmetrize_def sym_rows_def)
next
  case False
  then show ?thesis
    using sym_outer_ok[OF assms, of 0] by (simp add: symmetrize_def sym_rows_0)
qed

lemma lower_tri_length: "lower_tri h \<Longrightarrow> i < length h \<Longrightarrow> length (h ! i) = Suc i"
proof -
  assume a: "lower_tri h" "i < length h"
  then have "map length h ! i = map Suc [0 ..< length h] ! i" by (simp add: lower_tri_def)
  then show ?thesis using a(2) by simp
qed

lemma lower_tri_reach: "lower_tri h \<Longrightarrow> rows_reach h"
  by (auto simp: rows_reach_def dest: lower_tri_length)


lemma symmetrize_fully_read:
  assumes "fully_read hs"
  shows "symmetrize hs = Inr (map_option (\<lambda>h. sym_rows h (length h)) hs)"
proof (cases hs)
  case None
  then show ?thesis by (simp add: symmetrize_def)
next
  case (Some h)
  then have "lower_tri h" using assms by (simp add: fully_read_def)
  then show ?thesis using Some symmetrize_ok[OF lower_tri_reach, of h] by simp
qed










section \<open>Regrouping the displacements of a mode\<close>

lemma regroup_length: "length (regroup xs) = length xs div 3"
  by (induction xs rule: regroup.induct) simp_all

lemma take_3_plus: "take (3 + k) (a # b # c # rest) = a # b # c # take k rest"
  by (simp add: numeral_3_eq_3)

lemma regroup_flat: "flat3 (regroup xs) = take (3 * (length xs div 3)) xs"
  by (induction xs rule: regroup.induct) (simp_all add: flat3_def take_3_plus)

text \<open>
  C3, the claim as stated fails: a mode that collected four scalars in a job of two atoms
  ends with one triple, the fourth scalar dropped.
\<close>

theorem leftover_scalar_dropped:
  "map_sum id frequencies (scan four_scalars_chunk) =
     Inr (Some [(Fin 1, [Fin (1 / 10), Fin (1 / 5), Fin (3 / 10), Fin (2 / 5)])])
   \<and> map_sum id (\<lambda>r. (map_of (data_scalars r) ''natoms'', data_frequencies r))
        (parse_job four_scalars_chunk) =
     Inr (Some (IntV 2), Some [(Fin 1, [(Fin (1 / 10), Fin (1 / 5), Fin (3 / 10))])])"
  by code_simp

text \<open>
  C3, as amended: in the record returned, every mode (projected and normal) holds
  \<open>regroup\<close> of the flat list the scan collected: the consecutive triples in order, as many
  as a third of the scalars rounded down, the one or two scalars left over dropped. With
  exactly \<open>3 * n\<close> scalars there are \<open>n\<close> triples and nothing is dropped.
\<close>

theorem modes_regrouped:
  assumes "scan output = Inr st" and "parse_job output = Inr r"
  shows "data_frequencies r = map_option (map (\<lambda>(freq, m). (freq, regroup m))) (frequencies st)
       \<and> data_normal_frequencies r =
           map_option (map (\<lambda>(freq, m). (freq, regroup m))) (normal_frequencies st)
       \<and> (\<forall>m :: pyfloat list. length (regroup m) = length m div 3 \<and>
              flat3 (regroup m) = take (3 * (length m div 3)) m \<and>
              (\<forall>n. length m = 3 * n \<longrightarrow> length (regroup m) = n \<and> flat3 (regroup m) = m))"
proof -
  have "finish st = Inr r" using assms by (simp add: parse_job_def)
  then have "data_frequencies r = regroup_modes (frequencies st)"
    and "data_normal_frequencies r = regroup_modes (normal_frequencies st)"
    by (auto simp: finish_def split: sum.splits)
  then show ?thesis
    by (auto simp: regroup_modes_def regroup_length regroup_flat)
qed

lemma three_scalars_scan:
  "scan three_scalars_chunk =
     Inr (init_state\<lparr>data := [(''natoms'', IntV 1)],
            frequencies := Some [(Fin 1, [Fin (1 / 10), Fin (1 / 5), Fin (3 / 10)])],
            parse_projected_freq := True\<rparr>)"
  by code_simp

lemma three_scalars_job:
  "map_sum id data_frequencies (parse_job three_scalars_chunk) =
     Inr (Some [(Fin 1, [(Fin (1 / 10), Fin (1 / 5), Fin (3 / 10))])])"
  by code_simp

theorem modes_regrouped_witness:
  "scan three_scalars_chunk =
     Inr (init_state\<lparr>data := [(''natoms'', IntV 1)],
            frequencies := Some [(Fin 1, [Fin (1 / 10), Fin (1 / 5), Fin (3 / 10)])],
            parse_projected_freq := True\<rparr>)
   \<and> (\<exists>r. parse_job three_scalars_chunk = Inr r \<and>
          data_frequencies r = Some [(Fin 1, [(Fin (1 / 10), Fin (1 / 5), Fin (3 / 10))])] \<and>
          data_normal_frequencies r = None)"
proof -
  obtain r where r: "parse_job three_scalars_chunk = Inr r"
    using three_scalars_job by (cases "parse_job three_scalars_chunk") simp_all
  from modes_regrouped[OF three_scalars_scan r]
  have "data_frequencies r = Some [(Fin 1, [(Fin (1 / 10), Fin (1 / 5), Fin (3 / 10))])]"
    and "data_normal_frequencies r = None"
    by (simp_all add: init_state_def)
  then show ?thesis using three_scalars_scan r by blast
qed

section \<open>A log with no job boundary marker\<close>

lemma split_str_no_sep:
  "\<not> contains sep s \<Longrightarrow> split_str sep cur s = [cur @ s]"
  by (induction s arbitrary: cur) auto

lemma split_chr_no_sep: "d \<notin> set s \<Longrightarrow> split_chr d cur s = [cur @ s]"
  by (induction s arbitrary: cur) auto

lemma split_chr_set:
  "l \<in> set (split_chr d cur s) \<Longrightarrow> set l \<subseteq> set cur \<union> set s"
proof (induction s arbitrary: cur)
  case Nil
  then show ?case by simp
next
  case (Cons c s)
  show ?case
  proof (cases "c = d")
    case True
    then have "l = cur \<or> l \<in> set (split_chr d [] s)" using Cons.prems by simp
    then show ?thesis using Cons.IH[of "[]"] by auto
  next
    case False
    then have "l \<in> set (split_chr d (cur @ [c]) s)" using Cons.prems by simp
    then show ?thesis using Cons.IH[of "cur @ [c]"] by auto
  qed
qed

lemma foldl_id: "(\<And>a x. x \<in> set xs \<Longrightarrow> f a x = a) \<Longrightarrow> foldl f a xs = a"
  by (induction xs arbitrary: a) simp_all

lemma parse_preamble_no_eq:
  assumes "CHR ''='' \<notin> set p"
  shows "parse_preamble p = []"
proof -
  have "CHR ''='' \<notin> set l" if "l \<in> set (split_nl p)" for l
    using that assms split_chr_set[of l "CHR 0x0A" "[]" p] by (auto simp: split_nl_def)
  then show ?thesis
    unfolding parse_preamble_def
    by (intro foldl_id) (simp add: split_chr_no_sep Let_def)
qed

text \<open>
  C5, the claim as stated fails: a text with no marker that holds \<open>CITATION\<close> makes the
  constructor raise IndexError (its only chunk is dropped, then \<open>chunks.pop(0)\<close> finds the
  list empty); and the preamble mapping of a text with no marker is parsed from the whole
  text, so it is not empty when a line holds \<open>=\<close>.
\<close>

theorem no_marker_not_always_empty:
  "NwOutput_init ''CITATION'' = Inl IndexError
   \<and> NwOutput_init ''    hostname        = node1'' =
        Inr \<lparr>raw = ''    hostname        = node1'', job_info = [(''hostname'', ''node1'')], jobs = []\<rparr>"
  by code_simp

text \<open>
  C5, as amended: for a text with no occurrence of the marker and none of \<open>CITATION\<close>, the
  constructor returns a document with zero jobs whose preamble mapping is
  \<open>_parse_preamble\<close> of the whole text; that mapping is empty when the text has no \<open>=\<close>.
\<close>

theorem no_marker_document:
  assumes "\<not> contains ''NWChem Input Module'' text_data" and "\<not> contains ''CITATION'' text_data"
  shows "NwOutput_init text_data = Inr \<lparr>raw = text_data, job_info = parse_preamble text_data, jobs = []\<rparr>
       \<and> (CHR ''='' \<notin> set text_data \<longrightarrow> parse_preamble text_data = [])"
  using assms
  by (simp add: NwOutput_init_def split_str_no_sep parse_preamble_no_eq)

theorem no_marker_document_witness:
  "\<not> contains ''NWChem Input Module'' ''argument  1 : h2o.nw'' \<and>
   \<not> contains ''CITATION'' ''argument  1 : h2o.nw'' \<and>
   NwOutput_init ''argument  1 : h2o.nw'' = Inr \<lparr>raw = ''argument  1 : h2o.nw'', job_info = [], jobs = []\<rparr>"
proof -
  have a: "\<not> contains ''NWChem Input Module'' ''argument  1 : h2o.nw''" by code_simp
  have b: "\<not> contains ''CITATION'' ''argument  1 : h2o.nw''" by code_simp
  have c: "CHR ''='' \<notin> set ''argument  1 : h2o.nw''" by simp
  from no_marker_document[OF a b] c
  have "NwOutput_init ''argument  1 : h2o.nw'' =
          Inr \<lparr>raw = ''argument  1 : h2o.nw'', job_info = [], jobs = []\<rparr>"
    by simp
  then show ?thesis using a b by blast
qed

section \<open>The energy grid and the width of the spectrum\<close>

lemma osc_strengths_error: "osc_strengths ds = Inl e \<Longrightarrow> e = KeyError"
  by (induction ds arbitrary: e) (auto split: option.splits sum.splits)

lemma osc_strengths_missing:
  "\<exists>d \<in> set ds. osc_strength d = None \<Longrightarrow> osc_strengths ds = Inl KeyError"
proof (induction ds)
  case Nil
  then show ?case by simp
next
  case (Cons d ds)
  show ?case
  proof (cases "osc_strength d")
    case None
    then show ?thesis by simp
  next
    case (Some v)
    then have "\<exists>d \<in> set ds. osc_strength d = None" using Cons.prems by auto
    then show ?thesis using Cons.IH Some by simp
  qed
qed

lemma osc_strengths_length: "osc_strengths ds = Inr osc \<Longrightarrow> length osc = length ds"
  by (induction ds arbitrary: osc) (auto split: option.splits sum.splits)

lemma unsorted_roots_parsed:
  "parse_tddft unsorted_roots =
     Inr [(''singlet'', [\<lparr>energy = Fin 3, osc_strength = Some (Fin 1)\<rparr>,
                          \<lparr>energy = Fin 1, osc_strength = Some (Fin 1)\<rparr>]), (''triplet'', [])]"
  by code_simp

lemma unsorted_grid:
  "spec_energies exact_ops [Fin 3, Fin 1] (Fin (1 / 2)) 2 = [Fin (- 7), Fin 2]"
  by code_simp

lemma bare_root_parsed:
  "parse_tddft bare_root =
     Inr [(''singlet'', [\<lparr>energy = Fin 3, osc_strength = None\<rparr>]), (''triplet'', [])]"
  by code_simp

text \<open>
  C6, the claim as stated fails. The grid starts from the first root's energy, not the
  least, and stops one step short of the last root's energy plus 20 widths: with roots at
  3.0 and 1.0 eV in this order, width 0.5 and 2 points, the grid is -7, 2, where the least
  energy less 20 widths is -9 and the greatest plus 20 widths is 13. And a non-empty list
  with a root that has no oscillator strength raises KeyError, whatever the arithmetic.
\<close>

theorem grid_from_first_root:
  "map_sum id spectrum_x (get_excitation_spectrum exact_ops unsorted_roots (Fin (1 / 2)) 2)
     = Inr [Fin (- 7), Fin 2]
   \<and> (\<forall>ops width npoints. get_excitation_spectrum ops bare_root width npoints = Inl KeyError)"
proof -
  have "get_excitation_spectrum exact_ops unsorted_roots (Fin (1 / 2)) 2 =
          spec_curve exact_ops [Fin 3, Fin 1] [Fin 1, Fin 1] (Fin (1 / 2)) 2"
    by (simp add: get_excitation_spectrum_def unsorted_roots_parsed spectrum_of_roots_def)
  then have "map_sum id spectrum_x (get_excitation_spectrum exact_ops unsorted_roots (Fin (1 / 2)) 2)
     = Inr (spec_energies exact_ops [Fin 3, Fin 1] (Fin (1 / 2)) 2)"
    by (simp add: spec_curve_def Let_def)
  moreover have "get_excitation_spectrum ops bare_root width npoints = Inl KeyError"
    for ops width npoints
    by (simp add: get_excitation_spectrum_def bare_root_parsed spectrum_of_roots_def)
  ultimately show ?thesis unfolding unsorted_grid by simp
qed

text \<open>
  C6, as amended, for whatever the floating point operations compute. For a non-empty list
  of singlet roots that all have an oscillator strength and at least one point, the
  synthesizer returns a spectrum whose x values are the requested number of points, point
  \<open>i\<close> (from 0) being \<open>emin + i * de\<close> with \<open>emin\<close> the first root's energy less 20 widths,
  \<open>emax\<close> the last root's energy plus 20 widths (first and last in the order of the list)
  and \<open>de = (emax - emin) / npoints\<close>, so that the grid starts at \<open>emin + 0 * de\<close> and its last
  point is \<open>emin + (npoints - 1) * de\<close>; the effective width is \<open>2 * de\<close> if that is greater
  than the supplied width and the supplied width otherwise, and the y values are computed
  from it: the cutoff is 20 times and gamma half the effective width. The empty list raises
  IndexError, a list with a root without oscillator strength raises KeyError, and no point
  or a negative number of points raises IndexError.
\<close>

theorem spectrum_grid_and_width:
  "(ds \<noteq> [] \<and> osc_strengths ds = Inr osc \<and> 1 \<le> npoints
    \<longrightarrow> (let en = map energy ds;
              emin = fsub ops (energy (hd ds)) (fmul ops (Fin 20) width);
              emax = fadd ops (energy (last ds)) (fmul ops (Fin 20) width);
              de = fdiv ops (fsub ops emax emin) (of_py_int ops npoints);
              xs = map (\<lambda>i. fadd ops emin (fmul ops (of_py_int ops (int i)) de)) [0 ..< nat npoints];
              w = (if fgt ops (fmul ops (of_py_int ops 2) de) width
                   then fmul ops (of_py_int ops 2) de else width);
              gamma = fmul ops (Fin (1 / 2)) w;
              prefac = fmul ops (fdiv ops gamma (np_pi ops))
                         (fdiv ops (fsub ops (last xs) (hd xs)) (of_py_int ops (npoints - 1)))
          in spectrum_of_roots ops ds width npoints =
               Inr (ExcitationSpectrum xs
                      (map (\<lambda>e. fmul ops (spec_sum ops en osc (fmul ops gamma gamma)
                                             (fmul ops (Fin 20) w) e) prefac) xs))
             \<and> length xs = nat npoints
             \<and> spec_energies ops en width npoints = xs
             \<and> spec_width ops en width npoints = w))
 \<and> (ds = [] \<longrightarrow> spectrum_of_roots ops ds width npoints = Inl IndexError)
 \<and> ((\<exists>d \<in> set ds. osc_strength d = None)
    \<longrightarrow> spectrum_of_roots ops ds width npoints = Inl KeyError)
 \<and> (osc_strengths ds = Inr osc \<and> npoints \<le> 0
    \<longrightarrow> spectrum_of_roots ops ds width npoints = Inl IndexError)
 \<and> (parse_tddft txt = Inr rts \<and> map_of rts ''singlet'' = Some ds
    \<longrightarrow> get_excitation_spectrum ops txt width npoints = spectrum_of_roots ops ds width npoints)"
proof (intro conjI impI)
  assume a: "ds \<noteq> [] \<and> osc_strengths ds = Inr osc \<and> 1 \<le> npoints"
  then have n: "int (nat npoints) - 1 = npoints - 1" by simp
  have h: "hd (map energy ds) = energy (hd ds)" "last (map energy ds) = energy (last ds)"
    using a by (simp_all add: hd_map last_map)
  show "let en = map energy ds;
              emin = fsub ops (energy (hd ds)) (fmul ops (Fin 20) width);
              emax = fadd ops (energy (last ds)) (fmul ops (Fin 20) width);
              de = fdiv ops (fsub ops emax emin) (of_py_int ops npoints);
              xs = map (\<lambda>i. fadd ops emin (fmul ops (of_py_int ops (int i)) de)) [0 ..< nat npoints];
              w = (if fgt ops (fmul ops (of_py_int ops 2) de) width
                   then fmul ops (of_py_int ops 2) de else width);
              gamma = fmul ops (Fin (1 / 2)) w;
              prefac = fmul ops (fdiv ops gamma (np_pi ops))
                         (fdiv ops (fsub ops (last xs) (hd xs)) (of_py_int ops (npoints - 1)))
          in spectrum_of_roots ops ds width npoints =
               Inr (ExcitationSpectrum xs
                      (map (\<lambda>e. fmul ops (spec_sum ops en osc (fmul ops gamma gamma)
                                             (fmul ops (Fin 20) w) e) prefac) xs))
             \<and> length xs = nat npoints
             \<and> spec_energies ops en width npoints = xs
             \<and> spec_width ops en width npoints = w"
    using a
    by (simp add: Let_def spectrum_of_roots_def spec_curve_def spec_energies_def spec_width_def
        spec_de_def spec_emin_def spec_emax_def spec_epad_def py_max_def h n)
next
  assume "ds = []"
  then show "spectrum_of_roots ops ds width npoints = Inl IndexError"
    by (simp add: spectrum_of_roots_def spec_curve_def)
next
  assume "\<exists>d \<in> set ds. osc_strength d = None"
  then show "spectrum_of_roots ops ds width npoints = Inl KeyError"
    by (simp add: spectrum_of_roots_def osc_strengths_missing)
next
  assume "osc_strengths ds = Inr osc \<and> npoints \<le> 0"
  then show "spectrum_of_roots ops ds width npoints = Inl IndexError"
    by (simp add: spectrum_of_roots_def spec_curve_def)
next
  assume "parse_tddft txt = Inr rts \<and> map_of rts ''singlet'' = Some ds"
  then show "get_excitation_spectrum ops txt width npoints = spectrum_of_roots ops ds width npoints"
    by (simp add: get_excitation_spectrum_def)
qed

theorem spectrum_grid_and_width_witness:
  "(\<exists>ys. spectrum_of_roots exact_ops
            [\<lparr>energy = Fin 1, osc_strength = Some (Fin 1)\<rparr>,
             \<lparr>energy = Fin 3, osc_strength = Some (Fin (1 / 2))\<rparr>] (Fin (1 / 2)) 4
          = Inr (ExcitationSpectrum [Fin (- 9), Fin (- 7 / 2), Fin 2, Fin (15 / 2)] ys)
        \<and> length ys = 4)
   \<and> spec_width exact_ops [Fin 1, Fin 3] (Fin (1 / 2)) 4 = Fin 11
   \<and> spec_width exact_ops [Fin 1, Fin 3] (Fin 1) 128 = Fin 1
   \<and> spectrum_of_roots exact_ops [] (Fin (1 / 2)) 4 = Inl IndexError
   \<and> spectrum_of_roots exact_ops
        [\<lparr>energy = Fin 1, osc_strength = Some (Fin 1)\<rparr>, \<lparr>energy = Fin 3, osc_strength = None\<rparr>]
        (Fin (1 / 2)) 4 = Inl KeyError"
proof -
  let ?ds = "[\<lparr>energy = Fin 1, osc_strength = Some (Fin 1)\<rparr>,
              \<lparr>energy = Fin 3, osc_strength = Some (Fin (1 / 2))\<rparr>]"
  let ?bad = "[\<lparr>energy = Fin 1, osc_strength = Some (Fin 1)\<rparr>, \<lparr>energy = Fin 3, osc_strength = None\<rparr>]"
  have o: "osc_strengths ?ds = Inr [Fin 1, Fin (1 / 2)]" by simp
  have e: "spec_energies exact_ops [Fin 1, Fin 3] (Fin (1 / 2)) 4
             = [Fin (- 9), Fin (- 7 / 2), Fin 2, Fin (15 / 2)]"
    by code_simp
  have w: "spec_width exact_ops [Fin 1, Fin 3] (Fin (1 / 2)) 4 = Fin 11" by code_simp
  have w2: "spec_width exact_ops [Fin 1, Fin 3] (Fin 1) 128 = Fin 1" by code_simp
  have m: "map energy ?ds = [Fin 1, Fin 3]" by simp
  have hyp: "?ds \<noteq> [] \<and> osc_strengths ?ds = Inr [Fin 1, Fin (1 / 2)] \<and> (1::int) \<le> 4"
    using o by simp
  note t = spectrum_grid_and_width[where ops = exact_ops and width = "Fin (1 / 2)",
      THEN conjunct1, rule_format, OF hyp, unfolded Let_def m]
  from t have s: "\<exists>ys. spectrum_of_roots exact_ops ?ds (Fin (1 / 2)) 4
          = Inr (ExcitationSpectrum (spec_energies exact_ops [Fin 1, Fin 3] (Fin (1 / 2)) 4) ys)
        \<and> length ys = nat 4"
    by (metis length_map)
  have a: "\<exists>ys. spectrum_of_roots exact_ops ?ds (Fin (1 / 2)) 4
          = Inr (ExcitationSpectrum [Fin (- 9), Fin (- 7 / 2), Fin 2, Fin (15 / 2)] ys)
        \<and> length ys = 4"
    using s unfolding e by simp
  have b: "spectrum_of_roots exact_ops [] (Fin (1 / 2)) 4 = Inl IndexError"
    by (rule spectrum_grid_and_width[THEN conjunct2, THEN conjunct1, rule_format]) simp
  have c: "spectrum_of_roots exact_ops ?bad (Fin (1 / 2)) 4 = Inl KeyError"
    by (rule spectrum_grid_and_width[THEN conjunct2, THEN conjunct2, THEN conjunct1, rule_format]) simp
  show ?thesis by (intro conjI a w w2 b c)
qed

section \<open>Gas phase and sol phase energies\<close>

lemma trigger_step_energies:
  "trigger_step output st line = Inr st' \<Longrightarrow> energies st' = energies st"
  by (auto simp: trigger_step_def Let_def split: option.splits sum.splits if_splits)

lemma cosmo_chunk_energies:
  "map_sum id data_energies (parse_job cosmo_chunk) =
     Inr [Solvated [(''cosmo scf'', Scalar (Converted (Fin (- 382 / 5)) ''Ha'' ''eV'')),
                    (''gas phase'', Scalar (Converted (Fin (- 153 / 2)) ''Ha'' ''eV'')),
                    (''sol phase'', Scalar (Converted (Fin (- 383 / 5)) ''Ha'' ''eV''))]]"
  by code_simp

text \<open>
  C7, the claim as stated fails. A line that holds a gas phase energy after a total energy
  is read as a total energy line, which ends the handling of the line: its energy is
  appended and the entry before stays plain. And a gas phase line whose number is no float
  (the pattern takes any run of digits, dots and dashes) raises ValueError.
\<close>

theorem gas_line_not_converted:
  "map_sum id data_energies (parse_job total_and_gas_chunk) =
     Inr [Scalar (Converted (Fin (- 382 / 5)) ''Ha'' ''eV''), Scalar (Converted (Fin (- 1)) ''Ha'' ''eV'')] \<and>
   re_search energy_gas_patt
     ''         Total SCF energy =      -1.0     gas phase energy =       -76.5'' = Some [''-76.5''] \<and>
   parse_job gas_dash_chunk = Inl ValueError"
  by code_simp

text \<open>
  C7, as amended. On a line read by the last branch (no block open): if the total energy
  pattern matches, the line appends that energy (or raises ValueError if its number is no
  float) and nothing else of the line is looked at. A line that matches the gas phase
  pattern raises IndexError when \<open>energies\<close> is empty and ValueError when its number is no
  float, and else replaces the last entry of \<open>energies\<close> by the dict with that entry under
  \<open>cosmo scf\<close> and the new energy under \<open>gas phase\<close>. A line that matches the sol phase
  pattern raises IndexError when \<open>energies\<close> is empty, ValueError when its number is no
  float and TypeError when the last entry is a plain energy, and else adds \<open>sol phase\<close> to
  the dict that is the last entry. For a line that matches no total energy and one of the
  two, with a plain energy (gas phase) or the two-key dict (sol phase) as the last entry,
  the rest of the line's handling starts from that state and leaves \<open>energies\<close> as it is.
  The three energy lines of a solvated run give one entry of three keys.
\<close>

theorem gas_then_sol_phase:
  assumes "idle st"
  shows "(re_search energy_patt line = Some g \<longrightarrow>
            block_step output st line =
              (case py_float (grp g 1) of None \<Rightarrow> Inl ValueError
               | Some v \<Rightarrow> Inr (st\<lparr>energies := energies st @ [Scalar (Converted v ''Ha'' ''eV'')],
                                    parse_time := True\<rparr>)))
       \<and> (re_search energy_gas_patt line = Some g \<longrightarrow>
            gas_step st line =
              (if energies st = [] then Inl IndexError
               else (case py_float (grp g 1) of None \<Rightarrow> Inl ValueError
                     | Some v \<Rightarrow>
                         Inr (st\<lparr>energies := butlast (energies st) @
                                 [Solvated [(''cosmo scf'', last (energies st)),
                                            (''gas phase'', Scalar (Converted v ''Ha'' ''eV''))]]\<rparr>))))
       \<and> (re_search energy_patt line = None \<and>
          re_search energy_gas_patt line = Some g \<and> re_search energy_sol_patt line = None \<and>
          py_float (grp g 1) = Some v \<and> energies st = es @ [Scalar x]
          \<longrightarrow> block_step output st line =
                trigger_step output
                  (st\<lparr>energies := es @ [Solvated [(''cosmo scf'', Scalar x),
                                                  (''gas phase'', Scalar (Converted v ''Ha'' ''eV''))]]\<rparr>) line
              \<and> (\<forall>st'. block_step output st line = Inr st' \<longrightarrow>
                    energies st' = es @ [Solvated [(''cosmo scf'', Scalar x),
                                                   (''gas phase'', Scalar (Converted v ''Ha'' ''eV''))]]))
       \<and> (re_search energy_sol_patt line = Some g \<longrightarrow>
            sol_step st line =
              (if energies st = [] then Inl IndexError
               else (case py_float (grp g 1) of None \<Rightarrow> Inl ValueError
                     | Some v \<Rightarrow>
                         (case last (energies st) of
                            Scalar x \<Rightarrow> Inl TypeError
                          | Solvated d \<Rightarrow>
                              Inr (st\<lparr>energies := butlast (energies st) @
                                     [Solvated (AList.update ''sol phase''
                                                  (Scalar (Converted v ''Ha'' ''eV'')) d)]\<rparr>)))))
       \<and> (re_search energy_patt line = None \<and>
          re_search energy_gas_patt line = None \<and> re_search energy_sol_patt line = Some g \<and>
          py_float (grp g 1) = Some v \<and> energies st = es @ [Solvated [(''cosmo scf'', c), (''gas phase'', gp)]]
          \<longrightarrow> block_step output st line =
                trigger_step output
                  (st\<lparr>energies := es @ [Solvated [(''cosmo scf'', c), (''gas phase'', gp),
                                                  (''sol phase'', Scalar (Converted v ''Ha'' ''eV''))]]\<rparr>) line
              \<and> (\<forall>st'. block_step output st line = Inr st' \<longrightarrow>
                    energies st' = es @ [Solvated [(''cosmo scf'', c), (''gas phase'', gp),
                                                   (''sol phase'', Scalar (Converted v ''Ha'' ''eV''))]]))
       \<and> map_sum id data_energies (parse_job cosmo_chunk) =
           Inr [Solvated [(''cosmo scf'', Scalar (Converted (Fin (- 382 / 5)) ''Ha'' ''eV'')),
                          (''gas phase'', Scalar (Converted (Fin (- 153 / 2)) ''Ha'' ''eV'')),
                          (''sol phase'', Scalar (Converted (Fin (- 383 / 5)) ''Ha'' ''eV''))]]"
proof -
  have i: "block_step output st line = idle_step output st line"
    using assms by (simp add: block_step_def idle_def)
  have tot: "block_step output st line =
              (case py_float (grp g 1) of None \<Rightarrow> Inl ValueError
               | Some v \<Rightarrow> Inr (st\<lparr>energies := energies st @ [Scalar (Converted v ''Ha'' ''eV'')],
                                    parse_time := True\<rparr>))"
    if "re_search energy_patt line = Some g"
    using that unfolding i
    by (simp add: idle_step_def Energy_Ha_to_eV_def float_of_def split: option.splits)
  have gas: "gas_step st line =
              (if energies st = [] then Inl IndexError
               else (case py_float (grp g 1) of None \<Rightarrow> Inl ValueError
                     | Some v \<Rightarrow>
                         Inr (st\<lparr>energies := butlast (energies st) @
                                 [Solvated [(''cosmo scf'', last (energies st)),
                                            (''gas phase'', Scalar (Converted v ''Ha'' ''eV''))]]\<rparr>)))"
    if "re_search energy_gas_patt line = Some g"
    using that by (simp add: gas_step_def Energy_Ha_to_eV_def float_of_def split: option.splits)
  have sol: "sol_step st line =
              (if energies st = [] then Inl IndexError
               else (case py_float (grp g 1) of None \<Rightarrow> Inl ValueError
                     | Some v \<Rightarrow>
                         (case last (energies st) of
                            Scalar x \<Rightarrow> Inl TypeError
                          | Solvated d \<Rightarrow>
                              Inr (st\<lparr>energies := butlast (energies st) @
                                     [Solvated (AList.update ''sol phase''
                                                  (Scalar (Converted v ''Ha'' ''eV'')) d)]\<rparr>))))"
    if "re_search energy_sol_patt line = Some g"
    using that by (simp add: sol_step_def Energy_Ha_to_eV_def float_of_def split: option.splits)
  have gb: "block_step output st line =
                trigger_step output
                  (st\<lparr>energies := es @ [Solvated [(''cosmo scf'', Scalar x),
                                                  (''gas phase'', Scalar (Converted v ''Ha'' ''eV''))]]\<rparr>) line"
    if "re_search energy_patt line = None \<and>
          re_search energy_gas_patt line = Some g \<and> re_search energy_sol_patt line = None \<and>
          py_float (grp g 1) = Some v \<and> energies st = es @ [Scalar x]"
    using that unfolding i by (simp add: idle_step_def gas sol_step_def)
  have sb: "block_step output st line =
                trigger_step output
                  (st\<lparr>energies := es @ [Solvated [(''cosmo scf'', c), (''gas phase'', gp),
                                                  (''sol phase'', Scalar (Converted v ''Ha'' ''eV''))]]\<rparr>) line"
    if "re_search energy_patt line = None \<and>
          re_search energy_gas_patt line = None \<and> re_search energy_sol_patt line = Some g \<and>
          py_float (grp g 1) = Some v \<and> energies st = es @ [Solvated [(''cosmo scf'', c), (''gas phase'', gp)]]"
    using that unfolding i by (simp add: idle_step_def sol gas_step_def)
  show ?thesis
  proof (intro conjI impI allI)
    fix st'
    assume a: "re_search energy_patt line = None \<and>
          re_search energy_gas_patt line = Some g \<and> re_search energy_sol_patt line = None \<and>
          py_float (grp g 1) = Some v \<and> energies st = es @ [Scalar x]"
      and b: "block_step output st line = Inr st'"
    from trigger_step_energies[OF b[unfolded gb[OF a]]]
    show "energies st' = es @ [Solvated [(''cosmo scf'', Scalar x),
                                         (''gas phase'', Scalar (Converted v ''Ha'' ''eV''))]]"
      by simp
  next
    fix st'
    assume a: "re_search energy_patt line = None \<and>
          re_search energy_gas_patt line = None \<and> re_search energy_sol_patt line = Some g \<and>
          py_float (grp g 1) = Some v \<and> energies st = es @ [Solvated [(''cosmo scf'', c), (''gas phase'', gp)]]"
      and b: "block_step output st line = Inr st'"
    from trigger_step_energies[OF b[unfolded sb[OF a]]]
    show "energies st' = es @ [Solvated [(''cosmo scf'', c), (''gas phase'', gp),
                                         (''sol phase'', Scalar (Converted v ''Ha'' ''eV''))]]"
      by simp
  qed (use tot gas sol gb sb cosmo_chunk_energies in blast)+
qed

theorem gas_then_sol_phase_witness:
  "gas_step (init_state\<lparr>energies := [Scalar (Converted (Fin (- 382 / 5)) ''Ha'' ''eV'')], parse_time := True\<rparr>)
            ''                 gas phase energy =       -76.5''
     = Inr (init_state\<lparr>energies := [Solvated [(''cosmo scf'', Scalar (Converted (Fin (- 382 / 5)) ''Ha'' ''eV'')),
                                               (''gas phase'', Scalar (Converted (Fin (- 153 / 2)) ''Ha'' ''eV''))]],
                         parse_time := True\<rparr>)
   \<and> block_step [] (init_state\<lparr>energies := [Scalar (Converted (Fin (- 382 / 5)) ''Ha'' ''eV'')], parse_time := True\<rparr>)
            ''                 gas phase energy =       -76.5''
     = Inr (init_state\<lparr>energies := [Solvated [(''cosmo scf'', Scalar (Converted (Fin (- 382 / 5)) ''Ha'' ''eV'')),
                                               (''gas phase'', Scalar (Converted (Fin (- 153 / 2)) ''Ha'' ''eV''))]],
                         parse_time := True\<rparr>)
   \<and> sol_step (init_state\<lparr>energies := [Solvated [(''cosmo scf'', Scalar (Converted (Fin (- 382 / 5)) ''Ha'' ''eV'')),
                                               (''gas phase'', Scalar (Converted (Fin (- 153 / 2)) ''Ha'' ''eV''))]],
                         parse_time := True\<rparr>)
            ''                 sol phase energy =       -76.6''
     = Inr (init_state\<lparr>energies := [Solvated [(''cosmo scf'', Scalar (Converted (Fin (- 382 / 5)) ''Ha'' ''eV'')),
                                               (''gas phase'', Scalar (Converted (Fin (- 153 / 2)) ''Ha'' ''eV'')),
                                               (''sol phase'', Scalar (Converted (Fin (- 383 / 5)) ''Ha'' ''eV''))]],
                         parse_time := True\<rparr>)
   \<and> block_step [] (init_state\<lparr>energies := [Scalar (Converted (Fin (- 382 / 5)) ''Ha'' ''eV'')], parse_time := True\<rparr>)
            ''         Total SCF energy =      -1.0     gas phase energy =       -76.5''
     = Inr (init_state\<lparr>energies := [Scalar (Converted (Fin (- 382 / 5)) ''Ha'' ''eV''),
                                     Scalar (Converted (Fin (- 1)) ''Ha'' ''eV'')],
                         parse_time := True\<rparr>)"
proof -
  let ?x = "Converted (Fin (- 382 / 5)) ''Ha'' ''eV''"
  let ?gp = "Scalar (Converted (Fin (- 153 / 2)) ''Ha'' ''eV'')"
  let ?sp = "Scalar (Converted (Fin (- 383 / 5)) ''Ha'' ''eV'')"
  let ?s0 = "init_state\<lparr>energies := [Scalar ?x], parse_time := True\<rparr>"
  let ?s1 = "init_state\<lparr>energies := [Solvated [(''cosmo scf'', Scalar ?x), (''gas phase'', ?gp)]], parse_time := True\<rparr>"
  let ?s2 = "init_state\<lparr>energies := [Solvated [(''cosmo scf'', Scalar ?x), (''gas phase'', ?gp),
                 (''sol phase'', ?sp)]], parse_time := True\<rparr>"
  let ?s3 = "init_state\<lparr>energies := [Scalar ?x, Scalar (Converted (Fin (- 1)) ''Ha'' ''eV'')], parse_time := True\<rparr>"
  let ?l1 = "''                 gas phase energy =       -76.5''"
  let ?l2 = "''                 sol phase energy =       -76.6''"
  let ?l3 = "''         Total SCF energy =      -1.0     gas phase energy =       -76.5''"
  have i0: "idle ?s0" and i1: "idle ?s1" by (simp_all add: idle_def init_state_def)
  have e1: "re_search energy_patt ?l1 = None" by code_simp
  have e3: "re_search energy_patt ?l3 = Some [''-1.0'']" by code_simp
  have g1: "re_search energy_gas_patt ?l1 = Some [''-76.5'']" by code_simp
  have s1: "re_search energy_sol_patt ?l1 = None" by code_simp
  have s2: "re_search energy_sol_patt ?l2 = Some [''-76.6'']" by code_simp
  have f1: "py_float (grp [''-76.5''] 1) = Some (Fin (- 153 / 2))" by code_simp
  have f2: "py_float (grp [''-76.6''] 1) = Some (Fin (- 383 / 5))" by code_simp
  have f3: "py_float (grp [''-1.0''] 1) = Some (Fin (- 1))" by code_simp
  have n0: "energies ?s0 = [] @ [Scalar ?x]" by simp
  have t1: "trigger_step [] ?s1 ?l1 = Inr ?s1" by code_simp
  have u1: "?s0\<lparr>energies := [] @ [Solvated [(''cosmo scf'', Scalar ?x), (''gas phase'', ?gp)]]\<rparr> = ?s1"
    by simp
  have a: "gas_step ?s0 ?l1 = Inr ?s1"
    using gas_then_sol_phase[OF i0, THEN conjunct2, THEN conjunct1, rule_format, OF g1]
    unfolding f1 by simp
  have b: "block_step [] ?s0 ?l1 = Inr ?s1"
    using gas_then_sol_phase[OF i0, THEN conjunct2, THEN conjunct2, THEN conjunct1, rule_format,
        OF conjI[OF e1 conjI[OF g1 conjI[OF s1 conjI[OF f1 n0]]]], THEN conjunct1, of "[]"]
    unfolding u1 t1 .
  have c: "sol_step ?s1 ?l2 = Inr ?s2"
    using gas_then_sol_phase[OF i1, THEN conjunct2, THEN conjunct2, THEN conjunct2, THEN conjunct1,
        rule_format, OF s2]
    unfolding f2 by simp
  have d: "block_step [] ?s0 ?l3 = Inr ?s3"
    using gas_then_sol_phase[OF i0, THEN conjunct1, rule_format, OF e3, of "[]"]
    unfolding f3 by simp
  show ?thesis using a b c d by (intro conjI)
qed

section \<open>The basis summary\<close>

lemma dashes_match: "(re_match dashes_patt t = None) = (take 1 t \<noteq> ''-'')"
proof (cases t)
  case Nil
  then show ?thesis by (simp add: re_match_def dashes_patt_def)
next
  case (Cons c cs)
  then show ?thesis by (simp add: re_match_def dashes_patt_def in_cls_def)
qed

lemma basis_chunk_job:
  "map_sum id data_basis_set (parse_job basis_chunk) =
     Inr [(''C'', [(''description'', ''description''), (''shells'', ''2''),
                   (''functions'', ''3''), (''type'', ''s'')])]"
  by code_simp

text \<open>
  C9, the claim as stated fails. A row whose first token only begins with a dash is ignored
  like a row of dashes, so not every other row is stored; and a \<open>Tag\<close> row of fewer than
  five columns raises IndexError.
\<close>

theorem dash_tag_row_ignored:
  "map_sum id data_basis_set (parse_job dash_row_chunk) = Inr [] \<and>
   parse_job short_header_chunk = Inl IndexError"
  by code_simp

text \<open>
  C9, as amended. In the basis summary block a blank line ends the block. On a non-blank
  line with first token \<open>t0\<close>: if \<open>t0\<close> is \<open>Tag\<close>, the row raises IndexError when it has fewer
  than five tokens and else sets the header to its tokens in lower case without the 5th; if
  \<open>t0\<close> begins with a dash, the row changes nothing; any other row maps \<open>t0\<close> to the dict of
  the header names after the first, paired in order with the row's tokens after the first.
  The header and row of the specification's test map \<open>C\<close> to a dict over description,
  shells, functions and type.
\<close>

theorem basis_summary_rows:
  assumes "\<not> parse_force st" "\<not> parse_freq st" "\<not> parse_projected_freq st" "parse_bset st"
  shows "(strip line = [] \<longrightarrow> block_step output st line = Inr (st\<lparr>parse_bset := False\<rparr>))
       \<and> (strip line \<noteq> [] \<and> split_ws line = t0 # rest \<longrightarrow>
            block_step output st line =
              (if t0 = ''Tag'' then
                 (if length rest < 4 then Inl IndexError
                  else Inr (st\<lparr>bset_header := map lower (take 4 (t0 # rest) @ drop 5 (t0 # rest))\<rparr>))
               else if take 1 t0 = ''-'' then Inr st
               else Inr (st\<lparr>basis_set := AList.update t0 (dict_zip (drop 1 (bset_header st)) rest)
                                                        (basis_set st)\<rparr>)))
       \<and> map_sum id data_basis_set (parse_job basis_chunk) =
           Inr [(''C'', [(''description'', ''description''), (''shells'', ''2''),
                         (''functions'', ''3''), (''type'', ''s'')])]"
proof -
  have b: "block_step output st line = bset_step st line"
    using assms by (simp add: block_step_def)
  show ?thesis
    unfolding b using basis_chunk_job
    by (auto simp: bset_step_def dashes_match)
qed

theorem basis_summary_rows_witness:
  "block_step [] (init_state\<lparr>parse_bset := True\<rparr>) ''  Tag                 Description            Shells   Functions and Types''
     = Inr (init_state\<lparr>parse_bset := True, bset_header := [''tag'', ''description'', ''shells'', ''functions'', ''types'']\<rparr>)
   \<and> block_step [] (init_state\<lparr>parse_bset := True, bset_header := [''tag'', ''description'', ''shells'', ''functions'', ''types'']\<rparr>)
        '' ---------------- ------------------------------  ------  ---------------------''
     = Inr (init_state\<lparr>parse_bset := True, bset_header := [''tag'', ''description'', ''shells'', ''functions'', ''types'']\<rparr>)
   \<and> block_step [] (init_state\<lparr>parse_bset := True, bset_header := [''tag'', ''description'', ''shells'', ''functions'', ''types'']\<rparr>)
        '' O                          6-31g*                  6       15   3s2p1d''
     = Inr (init_state\<lparr>parse_bset := True, bset_header := [''tag'', ''description'', ''shells'', ''functions'', ''types''],
              basis_set := [(''O'', [(''description'', ''6-31g*''), (''shells'', ''6''), (''functions'', ''15''), (''types'', ''3s2p1d'')])]\<rparr>)
   \<and> block_step [] (init_state\<lparr>parse_bset := True\<rparr>) ''  Tag   Description   Shells''
     = Inl IndexError
   \<and> block_step [] (init_state\<lparr>parse_bset := True\<rparr>) ''   ''
     = Inr (init_state\<lparr>parse_bset := True, parse_bset := False\<rparr>)"
proof -
  let ?hd = "[''tag'', ''description'', ''shells'', ''functions'', ''types'']"
  let ?s0 = "init_state\<lparr>parse_bset := True\<rparr>"
  let ?s1 = "init_state\<lparr>parse_bset := True, bset_header := ?hd\<rparr>"
  let ?l1 = "''  Tag                 Description            Shells   Functions and Types''"
  let ?l2 = "'' ---------------- ------------------------------  ------  ---------------------''"
  let ?l3 = "'' O                          6-31g*                  6       15   3s2p1d''"
  let ?l4 = "''  Tag   Description   Shells''"
  have f0: "\<not> parse_force ?s0" "\<not> parse_freq ?s0" "\<not> parse_projected_freq ?s0" "parse_bset ?s0"
    and f1: "\<not> parse_force ?s1" "\<not> parse_freq ?s1" "\<not> parse_projected_freq ?s1" "parse_bset ?s1"
    by (simp_all add: init_state_def)
  have n1: "strip ?l1 \<noteq> []" and n2: "strip ?l2 \<noteq> []" and n3: "strip ?l3 \<noteq> []"
    and n4: "strip ?l4 \<noteq> []" and n5: "strip ''   '' = []" by code_simp+
  have t1: "split_ws ?l1 = ''Tag'' # [''Description'', ''Shells'', ''Functions'', ''and'', ''Types'']" by code_simp
  have t2: "split_ws ?l2 = ''----------------'' # [''------------------------------'', ''------'', ''---------------------'']"
    by code_simp
  have t3: "split_ws ?l3 = ''O'' # [''6-31g*'', ''6'', ''15'', ''3s2p1d'']" by code_simp
  have t4: "split_ws ?l4 = ''Tag'' # [''Description'', ''Shells'']" by code_simp
  have h: "map lower (take 4 (''Tag'' # [''Description'', ''Shells'', ''Functions'', ''and'', ''Types''])
             @ drop 5 (''Tag'' # [''Description'', ''Shells'', ''Functions'', ''and'', ''Types''])) = ?hd"
    by code_simp
  have z: "dict_zip (drop 1 ?hd) [''6-31g*'', ''6'', ''15'', ''3s2p1d'']
           = [(''description'', ''6-31g*''), (''shells'', ''6''), (''functions'', ''15''), (''types'', ''3s2p1d'')]"
    by code_simp
  note row0 = basis_summary_rows[OF f0, THEN conjunct2, THEN conjunct1, rule_format]
  note row1 = basis_summary_rows[OF f1, THEN conjunct2, THEN conjunct1, rule_format]
  have a: "block_step [] ?s0 ?l1 = Inr ?s1"
    using row0[OF conjI[OF n1 t1], of "[]"] h by simp
  have b: "block_step [] ?s1 ?l2 = Inr ?s1"
    using row1[OF conjI[OF n2 t2], of "[]"] by simp
  have c: "block_step [] ?s1 ?l3 = Inr (?s1\<lparr>basis_set := [(''O'', [(''description'', ''6-31g*''), (''shells'', ''6''),
                (''functions'', ''15''), (''types'', ''3s2p1d'')])]\<rparr>)"
    using row1[OF conjI[OF n3 t3], of "[]"] z by (simp add: init_state_def)
  have d: "block_step [] ?s0 ?l4 = Inl IndexError"
    using row0[OF conjI[OF n4 t4], of "[]"] by simp
  have e: "block_step [] ?s0 ''   '' = Inr (?s0\<lparr>parse_bset := False\<rparr>)"
    using basis_summary_rows[OF f0, THEN conjunct1, rule_format, OF n5] .
  show ?thesis using a b c d e by simp
qed

section \<open>The task time\<close>

lemma time_step_armed:
  "parse_time st \<Longrightarrow> re_search time_patt line = Some g \<Longrightarrow>
     time_step st line = st\<lparr>time := StrV (grp g 1), parse_time := False\<rparr>"
  by (simp add: time_step_def)

lemma time_step_waits:
  "re_search time_patt line = None \<Longrightarrow> time_step st line = st"
  by (simp add: time_step_def)

lemma time_step_once:
  "\<not> parse_time st \<Longrightarrow> time_step st line = st"
  by (simp add: time_step_def)

lemma energy_line_arms:
  "idle st \<Longrightarrow> re_search energy_patt line = Some g \<Longrightarrow> py_float (grp g 1) = Some v \<Longrightarrow>
     block_step output st line =
       Inr (st\<lparr>energies := energies st @ [Scalar (Converted v ''Ha'' ''eV'')], parse_time := True\<rparr>)"
  by (simp add: block_step_def idle_def idle_step_def Energy_Ha_to_eV_def float_of_def)

text \<open>
  C8. After a total energy line armed \<open>parse_time\<close>, the first later line of task times
  disarms it and stores the seconds: the text matched, \<open>"0.2"\<close>, not a float.
\<close>

theorem task_time_kept_as_text:
  "map_sum id data_task_time (parse_job timing_chunk) = Inr (StrV ''0.2'')"
  by code_simp

end

